theory Spec2Isabelle
  imports Complex_Main "HOL-Library.Char_ord" "HOL-Library.List_Lexorder" "HOL-Library.AList"
begin

section \<open>Paths\<close>

text \<open>
  A \<^verbatim>\<open>pathlib.Path\<close> is modelled by its list of components. Python compares two paths
  of the POSIX flavour by comparing these lists, each component by code point; this is
  the order that \<^verbatim>\<open>sorted\<close> uses in \<^verbatim>\<open>find_images\<close>, and it is the lexicographic
  order of \<^typ>\<open>string list\<close> here. Symbolic links and \<^verbatim>\<open>..\<close> are not modelled.
\<close>

type_synonym path = "string list"

text \<open>\<^verbatim>\<open>p / s\<close> for a file name \<open>s\<close> without separator; \<^verbatim>\<open>p / ""\<close> is \<open>p\<close>.\<close>

definition joinpath :: "path \<Rightarrow> string \<Rightarrow> path" where
  "joinpath p s = (if s = [] then p else p @ [s])"

text \<open>\<^verbatim>\<open>p.name\<close>: the last component, the empty string when there is none.\<close>

definition name :: "path \<Rightarrow> string" where
  "name p = (if p = [] then [] else last p)"

text \<open>\<^verbatim>\<open>p.parent\<close>.\<close>

definition parent :: "path \<Rightarrow> path" where
  "parent p = butlast p"

text \<open>\<^verbatim>\<open>s.endswith(suf)\<close> and \<^verbatim>\<open>s.endswith(tuple)\<close>.\<close>

definition endswith :: "string \<Rightarrow> string \<Rightarrow> bool" where
  "endswith s suf = (length suf \<le> length s \<and> drop (length s - length suf) s = suf)"

definition endswith_any :: "string \<Rightarrow> string list \<Rightarrow> bool" where
  "endswith_any s sufs = list_ex (endswith s) sufs"

text \<open>\<^verbatim>\<open>s.lower()\<close> on the ASCII letters (characters are bytes here).\<close>

definition lower_char :: "char \<Rightarrow> char" where
  "lower_char c = (if CHR ''A'' \<le> c \<and> c \<le> CHR ''Z'' then char_of (of_char c + (32::nat)) else c)"

definition lower :: "string \<Rightarrow> string" where
  "lower s = map lower_char s"

definition VALID_EXTS :: "string list" where
  "VALID_EXTS = [''.nii'', ''.nii.gz'', ''.nrrd'', ''.mha'', ''.mhd'', ''.nifti'', ''.hdr'', ''.img'']"

text \<open>\<^verbatim>\<open>s.rfind(c)\<close>: the index of the last occurrence, \<open>None\<close> for Python's \<open>-1\<close>.\<close>

fun rfind :: "char \<Rightarrow> string \<Rightarrow> nat option" where
  "rfind c [] = None"
| "rfind c (x # xs) =
     (case rfind c xs of
        Some i \<Rightarrow> Some (Suc i)
      | None \<Rightarrow> if x = c then Some 0 else None)"

text \<open>
  \<^verbatim>\<open>Path(b).stem\<close> as pathlib computes it (Python 3.8 to 3.13): the name up to its last
  dot, unless that dot is the first or the last character.
\<close>

definition stem :: "string \<Rightarrow> string" where
  "stem b =
     (case rfind (CHR ''.'') b of
        None \<Rightarrow> b
      | Some i \<Rightarrow> if 0 < i \<and> i < length b - 1 then take i b else b)"

definition basename_no_nii_gz :: "path \<Rightarrow> string" where
  "basename_no_nii_gz p =
     (let b = name p in
      if endswith b ''.nii.gz'' then take (length b - 7) b else stem b)"

section \<open>The filesystem\<close>

text \<open>
  The filesystem is a tree: a regular file with its size in bytes, a directory with its
  entries, or a directory the process may not search or list (\<open>NoAccess\<close>), below which
  every access fails with \<^verbatim>\<open>PermissionError\<close>.
\<close>

datatype node = File nat | Dir "(string \<times> node) list" | NoAccess

datatype exn =
    FileNotFoundError | NotADirectoryError | FileExistsError | PermissionError
  | TimeoutExpired | OSError | UnicodeDecodeError

datatype st_mode = S_IFREG | S_IFDIR

record stat_result =
  st_mode :: st_mode
  st_size :: nat

text \<open>
  \<^verbatim>\<open>os.stat\<close>. The size reported for a directory depends on the platform; the program
  never reads it.
\<close>

fun os_stat :: "node \<Rightarrow> path \<Rightarrow> exn + stat_result" where
  "os_stat (File k) [] = Inr \<lparr>st_mode = S_IFREG, st_size = k\<rparr>"
| "os_stat (Dir es) [] = Inr \<lparr>st_mode = S_IFDIR, st_size = 0\<rparr>"
| "os_stat NoAccess [] = Inr \<lparr>st_mode = S_IFDIR, st_size = 0\<rparr>"
| "os_stat (File k) (c # cs) = Inl NotADirectoryError"
| "os_stat (Dir es) (c # cs) =
     (case map_of es c of
        None \<Rightarrow> Inl FileNotFoundError
      | Some n \<Rightarrow> os_stat n cs)"
| "os_stat NoAccess (c # cs) = Inl PermissionError"

text \<open>
  The errors that pathlib's \<^verbatim>\<open>is_file\<close> and \<^verbatim>\<open>exists\<close> turn into \<open>False\<close>
  (\<^verbatim>\<open>ENOENT\<close>, \<^verbatim>\<open>ENOTDIR\<close>); every other error is raised again (Python 3.8 to 3.13).
\<close>

definition ignore_error :: "exn \<Rightarrow> bool" where
  "ignore_error e = (e = FileNotFoundError \<or> e = NotADirectoryError)"

definition is_file :: "node \<Rightarrow> path \<Rightarrow> exn + bool" where
  "is_file fs p =
     (case os_stat fs p of
        Inl e \<Rightarrow> if ignore_error e then Inr False else Inl e
      | Inr st \<Rightarrow> Inr (st_mode st = S_IFREG))"

definition path_exists :: "node \<Rightarrow> path \<Rightarrow> exn + bool" where
  "path_exists fs p =
     (case os_stat fs p of
        Inl e \<Rightarrow> if ignore_error e then Inr False else Inl e
      | Inr st \<Rightarrow> Inr True)"

text \<open>
  \<^verbatim>\<open>nonzero_file\<close>: the \<^verbatim>\<open>try\<close> block encloses both calls, and \<^verbatim>\<open>and\<close> evaluates
  \<^verbatim>\<open>p.stat()\<close> only when \<^verbatim>\<open>p.is_file()\<close> is true.
\<close>

definition nonzero_file :: "node \<Rightarrow> path \<Rightarrow> bool" where
  "nonzero_file fs p =
     (case is_file fs p of
        Inl e \<Rightarrow> False
      | Inr b \<Rightarrow>
          if b then (case os_stat fs p of Inl e \<Rightarrow> False | Inr st \<Rightarrow> 0 < st_size st)
          else False)"

text \<open>
  \<^verbatim>\<open>os.listdir\<close>: the names of the entries of a directory, of any kind, in the order the
  system gives them.
\<close>

fun os_listdir :: "node \<Rightarrow> path \<Rightarrow> exn + string list" where
  "os_listdir (File k) p = Inl NotADirectoryError"
| "os_listdir NoAccess p = Inl PermissionError"
| "os_listdir (Dir es) [] = Inr (map fst es)"
| "os_listdir (Dir es) (c # cs) =
     (case map_of es c of
        None \<Rightarrow> Inl FileNotFoundError
      | Some n \<Rightarrow> os_listdir n cs)"

text \<open>
  \<^verbatim>\<open>Path.mkdir(parents=True, exist_ok=True)\<close>: an existing directory is left as it is,
  missing ancestors are created, and a regular file on the way is an error.
\<close>

fun new_dirs :: "path \<Rightarrow> node" where
  "new_dirs [] = Dir []"
| "new_dirs (c # cs) = Dir [(c, new_dirs cs)]"

fun mkdir_p :: "node \<Rightarrow> path \<Rightarrow> exn + node" where
  "mkdir_p (File k) [] = Inl FileExistsError"
| "mkdir_p (Dir es) [] = Inr (Dir es)"
| "mkdir_p NoAccess [] = Inr NoAccess"
| "mkdir_p (File k) (c # cs) = Inl NotADirectoryError"
| "mkdir_p NoAccess (c # cs) = Inl PermissionError"
| "mkdir_p (Dir es) (c # cs) =
     (case map_of es c of
        None \<Rightarrow> Inr (Dir (es @ [(c, new_dirs cs)]))
      | Some n \<Rightarrow>
          (case mkdir_p n cs of
             Inl e \<Rightarrow> Inl e
           | Inr n' \<Rightarrow> Inr (Dir (AList.update c n' es))))"

definition is_dir :: "node \<Rightarrow> path \<Rightarrow> bool" where
  "is_dir fs p = (case os_stat fs p of Inl e \<Rightarrow> False | Inr st \<Rightarrow> st_mode st = S_IFDIR)"

section \<open>The world: filesystem, process launches, log\<close>

text \<open>
  The two external programs are launched with these arguments. For the second stage the
  arguments are those written into the generated script (\<^verbatim>\<open>make_hdbet_script\<close>); the
  script file itself lives in the system's temporary directory, outside the tree
  modelled here, and is unlinked in the \<^verbatim>\<open>finally\<close> block.
\<close>

datatype command =
    BRAINSFit (cmd_slicer: path) (cmd_atlas: path) (cmd_mov: path) (cmd_out_reg: path)
      (cmd_out_xfm: path) (cmd_iterations: int) (cmd_sampling: real)
  | HDBET (cmd_slicer: path) (cmd_in_vol: path) (cmd_out_skull: path) (cmd_out_seg: path)
      (cmd_log_txt: path) (cmd_wait_timeout_s: int)

text \<open>
  What happens when a command is launched: the process exits after some seconds with a
  return code; or it never exits by itself; or it cannot be started at all (the launcher is
  gone or not executable, \<^verbatim>\<open>subprocess.run\<close> raises \<^verbatim>\<open>OSError\<close>); or it exits after
  some seconds with output that cannot be decoded as text (\<^verbatim>\<open>UnicodeDecodeError\<close>).
\<close>

datatype behaviour = Exits nat int | NeverExits | CannotStart | Garbled nat

datatype log_line =
    DebugRunning command
  | Skip nat nat string
  | RunCase nat nat string
  | FailBRAINSFit string
  | InfoRegExists
  | FailHDBET string
  | InfoBetExists
  | HdbetTimeout int
  | OkRegistered path bool
  | OkTransform path bool
  | OkBetVolume path bool
  | OkBetSeg path bool
  | HdbetLog path bool
  | ErrNoSlicer
  | ErrNoAtlas path
  | ErrNoImages
  | InfoLauncher path
  | InfoInputs nat
  | InfoAtlas path
  | InfoOutDir path
  | Rule
  | Summary nat nat

text \<open>
  The state that the program reads and changes: the filesystem, the calls made so far to
  launch a process (each with the filesystem it was made on), and the calls made to \<^verbatim>\<open>logging\<close>. The
  output of the external programs, which the source copies to the log, is not modelled.
\<close>

record world =
  fs :: node
  launches :: "(command \<times> node) list"
  logged :: "log_line list"

text \<open>
  What the program cannot decide: how an external program behaves on a filesystem and what
  it leaves there when the caller resumes, what \<^verbatim>\<open>glob.glob\<close> returns for a pattern, and
  the two values \<^verbatim>\<open>slicer_executable\<close> reads from the process environment.
\<close>

record env =
  tool :: "command \<Rightarrow> node \<Rightarrow> behaviour \<times> node"
  glob :: "path \<Rightarrow> bool \<Rightarrow> node \<Rightarrow> path list"
  SLICER_EXE :: "path option"
  sys_executable :: path

text \<open>
  A call returns a value, raises an exception, or never returns (it waits for a process
  that never exits); in each case with the world as it is then.
\<close>

datatype 'a run = Returns 'a world | Raises exn world | Hangs world

definition say :: "log_line \<Rightarrow> world \<Rightarrow> world" where
  "say l s = s\<lparr>logged := logged s @ [l]\<rparr>"

section \<open>Output directories\<close>

record Paths =
  reg_dir :: path
  bet_dir :: path
  seg_dir :: path
  log_dir :: path
  xfm_dir :: path

fun ensure_dirs :: "path list \<Rightarrow> world \<Rightarrow> unit run" where
  "ensure_dirs [] s = Returns () s"
| "ensure_dirs (d # ds) s =
     (case mkdir_p (fs s) d of
        Inl e \<Rightarrow> Raises e s
      | Inr fs' \<Rightarrow> ensure_dirs ds (s\<lparr>fs := fs'\<rparr>))"

definition setup_output_dirs :: "path \<Rightarrow> world \<Rightarrow> Paths run" where
  "setup_output_dirs out_dir s =
     (let reg_dir = joinpath out_dir ''register'';
          bet_dir = joinpath out_dir ''bet'';
          seg_dir = joinpath out_dir ''segment'';
          log_dir = joinpath out_dir ''log'';
          xfm_dir = joinpath out_dir ''transform''
      in case ensure_dirs [reg_dir, bet_dir, seg_dir, log_dir, xfm_dir] s of
           Returns u s' \<Rightarrow>
             Returns \<lparr>reg_dir = reg_dir, bet_dir = bet_dir, seg_dir = seg_dir,
                      log_dir = log_dir, xfm_dir = xfm_dir\<rparr> s'
         | Raises e s' \<Rightarrow> Raises e s'
         | Hangs s' \<Rightarrow> Hangs s')"

text \<open>
  \<^verbatim>\<open>slicer_executable\<close>. Paths here are absolute and free of symbolic links, so
  \<^verbatim>\<open>resolve()\<close> changes nothing.
\<close>

definition slicer_executable :: "env \<Rightarrow> node \<Rightarrow> exn + path" where
  "slicer_executable env fs0 =
     (let candidate = joinpath (parent (parent (sys_executable env))) ''Slicer.exe'' in
      case SLICER_EXE env of
        None \<Rightarrow> Inr candidate
      | Some p \<Rightarrow>
          if p = [] then Inr candidate
          else (case is_file fs0 p of
                  Inl e \<Rightarrow> Inl e
                | Inr b \<Rightarrow> if b then Inr p else Inr candidate))"

section \<open>Stage executors\<close>

text \<open>
  \<^verbatim>\<open>subprocess.run(cmd, capture_output=True, text=True, timeout=timeout)\<close>: without a
  timeout the caller waits until the process exits; with one, a process that has not
  exited after that many seconds is killed and \<^verbatim>\<open>TimeoutExpired\<close> is raised. A
  process that cannot be started leaves the filesystem as it is.
\<close>

definition run_subprocess :: "env \<Rightarrow> command \<Rightarrow> int option \<Rightarrow> world \<Rightarrow> int run" where
  "run_subprocess env cmd timeout s =
     (let s1 = (say (DebugRunning cmd) s)\<lparr>launches := launches s @ [(cmd, fs s)]\<rparr>;
          s2 = s1\<lparr>fs := snd (tool env cmd (fs s))\<rparr>
      in case fst (tool env cmd (fs s)) of
           Exits d rc \<Rightarrow>
             (case timeout of
                None \<Rightarrow> Returns rc s2
              | Some t \<Rightarrow> if int d \<le> t then Returns rc s2 else Raises TimeoutExpired s2)
         | NeverExits \<Rightarrow>
             (case timeout of
                None \<Rightarrow> Hangs s1
              | Some t \<Rightarrow> Raises TimeoutExpired s2)
         | CannotStart \<Rightarrow> Raises OSError s1
         | Garbled d \<Rightarrow>
             (case timeout of
                None \<Rightarrow> Raises UnicodeDecodeError s2
              | Some t \<Rightarrow>
                  if int d \<le> t then Raises UnicodeDecodeError s2 else Raises TimeoutExpired s2))"

definition run_registration ::
  "env \<Rightarrow> path \<Rightarrow> path \<Rightarrow> path \<Rightarrow> path \<Rightarrow> path \<Rightarrow> int \<Rightarrow> real \<Rightarrow> world \<Rightarrow> bool run" where
  "run_registration env slicer atlas mov out_reg out_xfm iterations sampling s =
     (let cmd = BRAINSFit slicer atlas mov out_reg out_xfm iterations sampling in
      case run_subprocess env cmd None s of
        Returns returncode s' \<Rightarrow>
          if returncode \<noteq> 0 then Returns False s' else Returns True s'
      | Raises e s' \<Rightarrow> Raises e s'
      | Hangs s' \<Rightarrow> Hangs s')"

definition run_hdbet ::
  "env \<Rightarrow> path \<Rightarrow> path \<Rightarrow> path \<Rightarrow> path \<Rightarrow> path \<Rightarrow> int \<Rightarrow> world \<Rightarrow> bool run" where
  "run_hdbet env slicer out_reg out_bet out_seg bet_log bet_timeout s =
     (let cmd = HDBET slicer out_reg out_bet out_seg bet_log bet_timeout in
      case run_subprocess env cmd (Some (bet_timeout + 120)) s of
        Returns returncode s' \<Rightarrow>
          Returns (returncode = 0 \<and> nonzero_file (fs s') out_bet \<and> nonzero_file (fs s') out_seg) s'
      | Raises e s' \<Rightarrow>
          if e = TimeoutExpired then Returns False (say (HdbetTimeout bet_timeout) s')
          else Raises e s'
      | Hangs s' \<Rightarrow> Hangs s')"

section \<open>The pipeline for one case\<close>

text \<open>The closing log lines of \<^verbatim>\<open>process_case\<close>; \<^verbatim>\<open>bet_log.exists()\<close> is not guarded.\<close>

definition report_outputs :: "path \<Rightarrow> path \<Rightarrow> path \<Rightarrow> path \<Rightarrow> path \<Rightarrow> world \<Rightarrow> bool run" where
  "report_outputs out_reg out_xfm out_bet out_seg bet_log s =
     (let s1 = say (OkRegistered out_reg (nonzero_file (fs s) out_reg)) s;
          s2 = say (OkTransform out_xfm (nonzero_file (fs s) out_xfm)) s1;
          s3 = say (OkBetVolume out_bet (nonzero_file (fs s) out_bet)) s2;
          s4 = say (OkBetSeg out_seg (nonzero_file (fs s) out_seg)) s3
      in case path_exists (fs s) bet_log of
           Inl e \<Rightarrow> Raises e s4
         | Inr b \<Rightarrow> Returns True (say (HdbetLog bet_log b) s4))"

text \<open>The second half of \<^verbatim>\<open>process_case\<close>, from the test that guards HD-BET on.\<close>

definition second_stage ::
  "env \<Rightarrow> string \<Rightarrow> path \<Rightarrow> path \<Rightarrow> path \<Rightarrow> path \<Rightarrow> path \<Rightarrow> bool \<Rightarrow> path \<Rightarrow> int \<Rightarrow> world
   \<Rightarrow> bool run" where
  "second_stage env nm out_reg out_xfm out_bet out_seg bet_log overwrite slicer bet_timeout s =
     (if \<not> nonzero_file (fs s) out_bet \<or> \<not> nonzero_file (fs s) out_seg \<or> overwrite then
        (case run_hdbet env slicer out_reg out_bet out_seg bet_log bet_timeout s of
           Returns ok2 s' \<Rightarrow>
             if \<not> ok2 then Returns False (say (FailHDBET nm) s')
             else report_outputs out_reg out_xfm out_bet out_seg bet_log s'
         | Raises e s' \<Rightarrow> Raises e s'
         | Hangs s' \<Rightarrow> Hangs s')
      else report_outputs out_reg out_xfm out_bet out_seg bet_log (say InfoBetExists s))"

definition process_case ::
  "env \<Rightarrow> nat \<Rightarrow> nat \<Rightarrow> path \<Rightarrow> path \<Rightarrow> Paths \<Rightarrow> bool \<Rightarrow> int \<Rightarrow> real \<Rightarrow> path \<Rightarrow> int \<Rightarrow> world
   \<Rightarrow> bool run" where
  "process_case env idx tot mov atlas out_paths overwrite iterations sampling slicer bet_timeout s =
     (let nm = basename_no_nii_gz mov;
          out_reg = joinpath (reg_dir out_paths) (nm @ ''_register.nii.gz'');
          out_xfm = joinpath (xfm_dir out_paths) (nm @ ''_to_MNI.h5'');
          out_bet = joinpath (bet_dir out_paths) (nm @ ''_register_BET.nii.gz'');
          out_seg = joinpath (seg_dir out_paths) (nm @ ''_register_SEG.seg.nrrd'');
          bet_log = joinpath (log_dir out_paths) (nm @ ''_hdbet.log'')
      in
      if nonzero_file (fs s) out_reg \<and> nonzero_file (fs s) out_xfm \<and> nonzero_file (fs s) out_bet
         \<and> nonzero_file (fs s) out_seg \<and> \<not> overwrite
      then Returns True (say (Skip idx tot nm) s)
      else
        let s0 = say (RunCase idx tot nm) s in
        if \<not> nonzero_file (fs s0) out_reg \<or> overwrite then
          (case run_registration env slicer atlas mov out_reg out_xfm iterations sampling s0 of
             Returns ok s' \<Rightarrow>
               if \<not> ok then Returns False (say (FailBRAINSFit nm) s')
               else second_stage env nm out_reg out_xfm out_bet out_seg bet_log overwrite slicer
                      bet_timeout s'
           | Raises e s' \<Rightarrow> Raises e s'
           | Hangs s' \<Rightarrow> Hangs s')
        else second_stage env nm out_reg out_xfm out_bet out_seg bet_log overwrite slicer
               bet_timeout (say InfoRegExists s0))"

section \<open>Discovery\<close>

fun node_at :: "node \<Rightarrow> path \<Rightarrow> node option" where
  "node_at n [] = Some n"
| "node_at (Dir es) (c # cs) = (case map_of es c of None \<Rightarrow> None | Some n \<Rightarrow> node_at n cs)"
| "node_at (File k) (c # cs) = None"
| "node_at NoAccess (c # cs) = None"

fun is_dir_node :: "node \<Rightarrow> bool" where
  "is_dir_node (File k) = False"
| "is_dir_node (Dir es) = True"
| "is_dir_node NoAccess = True"

text \<open>
  \<^verbatim>\<open>os.walk(topdir)\<close>, topdir-down: one triple (directory, names of its subdirectories, names
  of its other entries) for each directory it can list; a directory that cannot be
  listed is passed over in silence.
\<close>

fun walk_node :: "path \<Rightarrow> node \<Rightarrow> (path \<times> string list \<times> string list) list" where
  "walk_node topdir (File k) = []"
| "walk_node topdir NoAccess = []"
| "walk_node topdir (Dir es) =
     (topdir, map fst (filter (\<lambda>x. is_dir_node (snd x)) es),
           map fst (filter (\<lambda>x. \<not> is_dir_node (snd x)) es))
     # concat (map (\<lambda>x. if is_dir_node (snd x) then walk_node (topdir @ [fst x]) (snd x) else []) es)"

definition os_walk :: "node \<Rightarrow> path \<Rightarrow> (path \<times> string list \<times> string list) list" where
  "os_walk fs0 topdir = (case node_at fs0 topdir of None \<Rightarrow> [] | Some n \<Rightarrow> walk_node topdir n)"

text \<open>The list comprehension of the pattern branch: \<^verbatim>\<open>Path(p).is_file()\<close> may raise.\<close>

fun keep_files :: "node \<Rightarrow> path list \<Rightarrow> exn + path list" where
  "keep_files fs0 [] = Inr []"
| "keep_files fs0 (p # ps) =
     (case is_file fs0 p of
        Inl e \<Rightarrow> Inl e
      | Inr b \<Rightarrow>
          (case keep_files fs0 ps of
             Inl e \<Rightarrow> Inl e
           | Inr r \<Rightarrow> Inr (if b then p # r else r)))"

definition find_images :: "env \<Rightarrow> node \<Rightarrow> path \<Rightarrow> string option \<Rightarrow> bool \<Rightarrow> exn + path list" where
  "find_images env fs0 in_dir pattern recursive =
     (if pattern \<noteq> None \<and> pattern \<noteq> Some [] then
        (let pattern_path = in_dir @ (if recursive then [''**''] else []) @ [the pattern];
             paths = glob env pattern_path recursive fs0
         in case keep_files fs0 paths of
              Inl e \<Rightarrow> Inl e
            | Inr ps \<Rightarrow> Inr (sort ps))
      else if recursive then
        Inr (sort (concat (map (\<lambda>(dirpath, dirs, files).
               map (\<lambda>f. joinpath dirpath f) (filter (\<lambda>f. endswith_any (lower f) VALID_EXTS) files))
             (os_walk fs0 in_dir))))
      else
        (case os_listdir fs0 in_dir of
           Inl e \<Rightarrow> Inl e
         | Inr names \<Rightarrow>
             Inr (sort (map (\<lambda>f. joinpath in_dir f)
                    (filter (\<lambda>f. endswith_any (lower f) VALID_EXTS) names)))))"

section \<open>The batch\<close>

text \<open>The \<^verbatim>\<open>for\<close> loop of \<^verbatim>\<open>run_batch\<close>, with its counter \<^verbatim>\<open>done\<close> (here \<open>n_done\<close>).\<close>

fun batch_loop ::
  "env \<Rightarrow> nat \<Rightarrow> path \<Rightarrow> Paths \<Rightarrow> bool \<Rightarrow> int \<Rightarrow> real \<Rightarrow> path \<Rightarrow> int
   \<Rightarrow> nat \<Rightarrow> path list \<Rightarrow> nat \<Rightarrow> world \<Rightarrow> nat run" where
  "batch_loop env tot atlas out_paths overwrite iterations sampling slicer bet_timeout
     idx [] n_done s = Returns n_done s"
| "batch_loop env tot atlas out_paths overwrite iterations sampling slicer bet_timeout
     idx (mov # rest) n_done s =
     (case process_case env idx tot mov atlas out_paths overwrite iterations sampling slicer
             bet_timeout s of
        Returns ok s' \<Rightarrow>
          batch_loop env tot atlas out_paths overwrite iterations sampling slicer bet_timeout
            (Suc idx) rest (n_done + (if ok then 1 else 0)) (say Rule s')
      | Raises e s' \<Rightarrow> Raises e s'
      | Hangs s' \<Rightarrow> Hangs s')"

text \<open>The five log lines between discovery and the loop.\<close>

definition log_banner :: "path \<Rightarrow> path list \<Rightarrow> path \<Rightarrow> path \<Rightarrow> world \<Rightarrow> world" where
  "log_banner slicer imgs atlas out_dir s =
     say Rule (say (InfoOutDir out_dir) (say (InfoAtlas atlas)
       (say (InfoInputs (length imgs)) (say (InfoLauncher slicer) s))))"

definition run_batch ::
  "env \<Rightarrow> path \<Rightarrow> path \<Rightarrow> path \<Rightarrow> string option \<Rightarrow> bool \<Rightarrow> bool \<Rightarrow> int \<Rightarrow> real \<Rightarrow> int \<Rightarrow> world
   \<Rightarrow> int run" where
  "run_batch env in_dir atlas out_dir pattern recursive overwrite iterations sampling bet_timeout s =
     (case setup_output_dirs out_dir s of
        Raises e s1 \<Rightarrow> Raises e s1
      | Hangs s1 \<Rightarrow> Hangs s1
      | Returns out_paths s1 \<Rightarrow>
          (case slicer_executable env (fs s1) of
             Inl e \<Rightarrow> Raises e s1
           | Inr slicer \<Rightarrow>
               (case is_file (fs s1) slicer of
                  Inl e \<Rightarrow> Raises e s1
                | Inr slicer_ok \<Rightarrow>
                    if \<not> slicer_ok then Returns 2 (say ErrNoSlicer s1)
                    else
                      (case is_file (fs s1) atlas of
                         Inl e \<Rightarrow> Raises e s1
                       | Inr atlas_ok \<Rightarrow>
                           if \<not> atlas_ok then Returns 2 (say (ErrNoAtlas atlas) s1)
                           else
                             (case find_images env (fs s1) in_dir pattern recursive of
                                Inl e \<Rightarrow> Raises e s1
                              | Inr imgs \<Rightarrow>
                                  if imgs = [] then Returns 1 (say ErrNoImages s1)
                                  else
                                    let s2 = log_banner slicer imgs atlas out_dir s1 in
                                    (case batch_loop env (length imgs) atlas out_paths overwrite
                                            iterations sampling slicer bet_timeout 1 imgs 0 s2 of
                                       Raises e s3 \<Rightarrow> Raises e s3
                                     | Hangs s3 \<Rightarrow> Hangs s3
                                     | Returns n_done s3 \<Rightarrow>
                                         Returns (if n_done = length imgs then 0 else 1)
                                           (say (Summary n_done (length imgs)) s3)))))))"

section \<open>Notions used to state the properties\<close>

text \<open>The world in which a call ends, however it ends.\<close>

definition final_world :: "'a run \<Rightarrow> world" where
  "final_world r = (case r of Returns v s \<Rightarrow> s | Raises e s \<Rightarrow> s | Hangs s \<Rightarrow> s)"

text \<open>The launches a call made (started or not), given the world it started in.\<close>

definition launched :: "world \<Rightarrow> 'a run \<Rightarrow> (command \<times> node) list" where
  "launched s r = drop (length (launches s)) (launches (final_world r))"


text \<open>The exit status of the batch, when it returns one.\<close>

definition status_of :: "int run \<Rightarrow> int option" where
  "status_of r = (case r of Returns rc s \<Rightarrow> Some rc | Raises e s \<Rightarrow> None | Hangs s \<Rightarrow> None)"

text \<open>The five paths that \<^verbatim>\<open>process_case\<close> derives from the input path.\<close>

definition reg_path :: "Paths \<Rightarrow> path \<Rightarrow> path" where
  "reg_path ps mov = joinpath (reg_dir ps) (basename_no_nii_gz mov @ ''_register.nii.gz'')"

definition xfm_path :: "Paths \<Rightarrow> path \<Rightarrow> path" where
  "xfm_path ps mov = joinpath (xfm_dir ps) (basename_no_nii_gz mov @ ''_to_MNI.h5'')"

definition bet_path :: "Paths \<Rightarrow> path \<Rightarrow> path" where
  "bet_path ps mov = joinpath (bet_dir ps) (basename_no_nii_gz mov @ ''_register_BET.nii.gz'')"

definition seg_path :: "Paths \<Rightarrow> path \<Rightarrow> path" where
  "seg_path ps mov = joinpath (seg_dir ps) (basename_no_nii_gz mov @ ''_register_SEG.seg.nrrd'')"

definition betlog_path :: "Paths \<Rightarrow> path \<Rightarrow> path" where
  "betlog_path ps mov = joinpath (log_dir ps) (basename_no_nii_gz mov @ ''_hdbet.log'')"

text \<open>The two command lines of one case.\<close>

definition stage1_cmd :: "path \<Rightarrow> path \<Rightarrow> path \<Rightarrow> Paths \<Rightarrow> int \<Rightarrow> real \<Rightarrow> command" where
  "stage1_cmd slicer atlas mov ps iterations sampling =
     BRAINSFit slicer atlas mov (reg_path ps mov) (xfm_path ps mov) iterations sampling"

definition stage2_cmd :: "path \<Rightarrow> path \<Rightarrow> Paths \<Rightarrow> int \<Rightarrow> command" where
  "stage2_cmd slicer mov ps bet_timeout =
     HDBET slicer (reg_path ps mov) (bet_path ps mov) (seg_path ps mov) (betlog_path ps mov)
       bet_timeout"

text \<open>Which of the two programs a command line launches.\<close>

fun is_stage1 :: "command \<Rightarrow> bool" where
  "is_stage1 (BRAINSFit sl atl mv rg xf itn sa) = True"
| "is_stage1 (HDBET sl iv sk sg lg w) = False"

fun is_stage2 :: "command \<Rightarrow> bool" where
  "is_stage2 (BRAINSFit sl atl mv rg xf itn sa) = False"
| "is_stage2 (HDBET sl iv sk sg lg w) = True"


text \<open>The test that opens \<^verbatim>\<open>process_case\<close>: all four outputs exist with non-zero size.\<close>

definition all_outputs :: "node \<Rightarrow> Paths \<Rightarrow> path \<Rightarrow> bool" where
  "all_outputs t ps mov =
     (nonzero_file t (reg_path ps mov) \<and> nonzero_file t (xfm_path ps mov)
      \<and> nonzero_file t (bet_path ps mov) \<and> nonzero_file t (seg_path ps mov))"


text \<open>The launches of the second half of \<^verbatim>\<open>process_case\<close>, entered on filesystem \<open>t\<close>.\<close>

definition stage2_trace :: "path \<Rightarrow> path \<Rightarrow> Paths \<Rightarrow> bool \<Rightarrow> int \<Rightarrow> node \<Rightarrow> (command \<times> node) list" where
  "stage2_trace slicer mov ps overwrite bet_timeout t =
     (if \<not> nonzero_file t (bet_path ps mov) \<or> \<not> nonzero_file t (seg_path ps mov) \<or> overwrite
      then [(stage2_cmd slicer mov ps bet_timeout, t)] else [])"

text \<open>The launches of \<^verbatim>\<open>process_case\<close>, entered on filesystem \<open>t\<close>.\<close>

definition case_trace ::
  "env \<Rightarrow> path \<Rightarrow> path \<Rightarrow> Paths \<Rightarrow> bool \<Rightarrow> int \<Rightarrow> real \<Rightarrow> path \<Rightarrow> int \<Rightarrow> node
   \<Rightarrow> (command \<times> node) list" where
  "case_trace env mov atlas ps overwrite iterations sampling slicer bet_timeout t =
     (if all_outputs t ps mov \<and> \<not> overwrite then []
      else if \<not> nonzero_file t (reg_path ps mov) \<or> overwrite then
        (stage1_cmd slicer atlas mov ps iterations sampling, t) #
        (case fst (tool env (stage1_cmd slicer atlas mov ps iterations sampling) t) of
           Exits d rc \<Rightarrow>
             if rc = 0 then stage2_trace slicer mov ps overwrite bet_timeout
                              (snd (tool env (stage1_cmd slicer atlas mov ps iterations sampling) t))
             else []
         | NeverExits \<Rightarrow> []
         | CannotStart \<Rightarrow> []
         | Garbled d \<Rightarrow> [])
      else stage2_trace slicer mov ps overwrite bet_timeout t)"

text \<open>
  The value \<^verbatim>\<open>process_case\<close> returns for each item of the loop in turn, up to the first
  item at which it does not return.
\<close>

fun case_results ::
  "env \<Rightarrow> nat \<Rightarrow> path \<Rightarrow> Paths \<Rightarrow> bool \<Rightarrow> int \<Rightarrow> real \<Rightarrow> path \<Rightarrow> int
   \<Rightarrow> nat \<Rightarrow> path list \<Rightarrow> world \<Rightarrow> bool list" where
  "case_results env tot atlas out_paths overwrite iterations sampling slicer bet_timeout
     idx [] s = []"
| "case_results env tot atlas out_paths overwrite iterations sampling slicer bet_timeout
     idx (mov # rest) s =
     (case process_case env idx tot mov atlas out_paths overwrite iterations sampling slicer
             bet_timeout s of
        Returns ok s' \<Rightarrow>
          ok # case_results env tot atlas out_paths overwrite iterations sampling slicer bet_timeout
                 (Suc idx) rest (say Rule s')
      | Raises e s' \<Rightarrow> []
      | Hangs s' \<Rightarrow> [])"

text \<open>The log lines of a loop in which every item is skipped.\<close>

fun skip_lines :: "nat \<Rightarrow> nat \<Rightarrow> path list \<Rightarrow> log_line list" where
  "skip_lines tot idx [] = []"
| "skip_lines tot idx (mov # rest) =
     Skip idx tot (basename_no_nii_gz mov) # Rule # skip_lines tot (Suc idx) rest"

section \<open>Concrete inputs\<close>

text \<open>A small tree with a directory that cannot be searched, an empty file and a volume.\<close>

definition fs_small :: node where
  "fs_small = Dir [(''locked'', NoAccess), (''empty'', File 0), (''vol'', File 7)]"

text \<open>
  A working directory with one input volume, the atlas, the launcher and the five output
  directories; each of the four outputs of the case is absent (\<open>None\<close>) or has the given size.
\<close>

definition entry :: "string \<Rightarrow> nat option \<Rightarrow> (string \<times> node) list" where
  "entry nm sz = (case sz of None \<Rightarrow> [] | Some k \<Rightarrow> [(nm, File k)])"

definition demo_fs :: "nat option \<Rightarrow> nat option \<Rightarrow> nat option \<Rightarrow> nat option \<Rightarrow> node" where
  "demo_fs r x b g =
     Dir [(''data'', Dir [(''case1.nii.gz'', File 9)]),
          (''atlas.nii'', File 5),
          (''opt'', Dir [(''Slicer.exe'', File 1), (''bin'', Dir [(''python'', File 1)])]),
          (''out'', Dir [(''register'', Dir (entry ''case1_register.nii.gz'' r)),
                         (''bet'', Dir (entry ''case1_register_BET.nii.gz'' b)),
                         (''segment'', Dir (entry ''case1_register_SEG.seg.nrrd'' g)),
                         (''log'', Dir []),
                         (''transform'', Dir (entry ''case1_to_MNI.h5'' x))])]"

definition demo_paths :: Paths where
  "demo_paths = \<lparr>reg_dir = [''out'', ''register''], bet_dir = [''out'', ''bet''],
                  seg_dir = [''out'', ''segment''], log_dir = [''out'', ''log''],
                  xfm_dir = [''out'', ''transform'']\<rparr>"

definition demo_mov :: path where
  "demo_mov = [''data'', ''case1.nii.gz'']"

definition demo_slicer :: path where
  "demo_slicer = [''opt'', ''Slicer.exe'']"

definition demo_atlas :: path where
  "demo_atlas = [''atlas.nii'']"

definition demo_world :: "node \<Rightarrow> world" where
  "demo_world t = \<lparr>fs = t, launches = [], logged = []\<rparr>"

text \<open>Writing a file into an existing directory, for the example programs below.\<close>

fun write_file :: "node \<Rightarrow> path \<Rightarrow> nat \<Rightarrow> node" where
  "write_file (Dir es) [c] k = Dir (AList.update c (File k) es)"
| "write_file (Dir es) (c # c' # cs) k =
     (case map_of es c of
        None \<Rightarrow> Dir es
      | Some n \<Rightarrow> Dir (AList.update c (write_file n (c' # cs) k) es))"
| "write_file n p k = n"

text \<open>
  External programs that behave as told: the first writes nothing, the second writes the
  outputs named on its command line.
\<close>

definition idle_tool :: "behaviour \<Rightarrow> behaviour \<Rightarrow> command \<Rightarrow> node \<Rightarrow> behaviour \<times> node" where
  "idle_tool b1 b2 c t = (case c of BRAINSFit sl atl mv rg xf itn sa \<Rightarrow> (b1, t)
                                  | HDBET sl iv sk sg lg w \<Rightarrow> (b2, t))"

definition writing_tool :: "behaviour \<Rightarrow> behaviour \<Rightarrow> command \<Rightarrow> node \<Rightarrow> behaviour \<times> node" where
  "writing_tool b1 b2 c t =
     (case c of
        BRAINSFit sl atl mv rg xf itn sa \<Rightarrow> (b1, write_file (write_file t rg 8) xf 2)
      | HDBET sl iv sk sg lg w \<Rightarrow> (b2, write_file (write_file t sk 6) sg 3))"


definition demo_env :: "(command \<Rightarrow> node \<Rightarrow> behaviour \<times> node) \<Rightarrow> env" where
  "demo_env prog = \<lparr>tool = prog, glob = (\<lambda>p r t. []), SLICER_EXE = None,
                   sys_executable = [''opt'', ''bin'', ''python'']\<rparr>"

text \<open>The programs of the examples: both exit with status 0, after one and five minutes.\<close>

definition good_env :: env where
  "good_env = demo_env (writing_tool (Exits 60 0) (Exits 300 0))"


text \<open>A second-stage host that never exits.\<close>

definition stuck2_env :: env where
  "stuck2_env = demo_env (idle_tool (Exits 60 0) NeverExits)"

text \<open>
  Two batch runs in a row on a working directory in which the registered volume, the
  skull-stripped volume and the segmentation exist and the transform does not; the second
  run starts on the filesystem the first one leaves, with an empty log.
\<close>

definition first_run :: "int run" where
  "first_run = run_batch good_env [''data''] demo_atlas [''out''] None False False 1500 0.05 1800
                 (demo_world (demo_fs (Some 8) None (Some 6) (Some 3)))"

definition second_run :: "int run" where
  "second_run = run_batch good_env [''data''] demo_atlas [''out''] None False False 1500 0.05 1800
                  (demo_world (fs (final_world first_run)))"

text \<open>A working directory in which the output directory does not exist yet.\<close>

definition bare_fs :: node where
  "bare_fs = Dir [(''data'', Dir [(''case1.nii.gz'', File 9)]),
                  (''atlas.nii'', File 5),
                  (''opt'', Dir [(''Slicer.exe'', File 1), (''bin'', Dir [(''python'', File 1)])])]"

text \<open>The same, with a regular file where the second output directory should be.\<close>

definition blocked_fs :: node where
  "blocked_fs = Dir [(''data'', Dir [(''case1.nii.gz'', File 9)]),
                     (''atlas.nii'', File 5),
                     (''opt'', Dir [(''Slicer.exe'', File 1), (''bin'', Dir [(''python'', File 1)])]),
                     (''out'', Dir [(''bet'', File 3)])]"

text \<open>
  A working directory with two input volumes and empty output directories, and programs of
  which the first stage fails (status 1) for the first volume only.
\<close>

definition duo_fs :: node where
  "duo_fs =
     Dir [(''data'', Dir [(''case1.nii.gz'', File 9), (''case2.nii.gz'', File 7)]),
          (''atlas.nii'', File 5),
          (''opt'', Dir [(''Slicer.exe'', File 1), (''bin'', Dir [(''python'', File 1)])]),
          (''out'', Dir [(''register'', Dir []), (''bet'', Dir []), (''segment'', Dir []),
                         (''log'', Dir []), (''transform'', Dir [])])]"

definition choosy_tool :: "command \<Rightarrow> node \<Rightarrow> behaviour \<times> node" where
  "choosy_tool c t =
     (case c of
        BRAINSFit sl atl mv rg xf itn sa \<Rightarrow>
          if mv = [''data'', ''case1.nii.gz''] then (Exits 60 1, t)
          else (Exits 60 0, write_file (write_file t rg 8) xf 2)
      | HDBET sl iv sk sg lg w \<Rightarrow> (Exits 300 0, write_file (write_file t sk 6) sg 3))"

text \<open>An input directory whose only entry is a directory with the name of a volume.\<close>

definition fs_dirs :: node where
  "fs_dirs = Dir [(''data'', Dir [(''scan.nii'', Dir [(''slice1.dcm'', File 4)])])]"

text \<open>An environment whose Python lives where no launcher is.\<close>

definition lost_env :: env where
  "lost_env = \<lparr>tool = writing_tool (Exits 60 0) (Exits 300 0), glob = (\<lambda>p r t. []),
                SLICER_EXE = None, sys_executable = [''usr'', ''bin'', ''python'']\<rparr>"



text \<open>The world after the output directories have been created in the bare working directory.\<close>

definition bare_made :: world where
  "bare_made = final_world (setup_output_dirs [''out''] (demo_world bare_fs))"

section \<open>Artifact status\<close>

lemma nonzero_file_iff:
  "nonzero_file t p \<longleftrightarrow> (\<exists>k. os_stat t p = Inr \<lparr>st_mode = S_IFREG, st_size = k\<rparr> \<and> 0 < k)"
proof (cases "os_stat t p")
  case (Inl e)
  then show ?thesis by (simp add: nonzero_file_def is_file_def)
next
  case (Inr st)
  then show ?thesis
    by (cases st) (auto simp: nonzero_file_def is_file_def)
qed

section \<open>Basic facts about the world\<close>

lemma say_simps [simp]:
  "fs (say l s) = fs s" "launches (say l s) = launches s" "logged (say l s) = logged s @ [l]"
  by (simp_all add: say_def)

lemma final_world_simps [simp]:
  "final_world (Returns v s) = s" "final_world (Raises e s) = s" "final_world (Hangs s) = s"
  by (simp_all add: final_world_def)

lemma report_outputs_world:
  "fs (final_world (report_outputs a b c d e s)) = fs s"
  "launches (final_world (report_outputs a b c d e s)) = launches s"
  by (simp_all add: report_outputs_def Let_def split: sum.splits)

section \<open>The stage executors\<close>

lemma run_registration_cases:
  "run_registration env slicer atlas mov a b iterations sampling s =
     (let c = BRAINSFit slicer atlas mov a b iterations sampling;
          s1 = (say (DebugRunning c) s)\<lparr>launches := launches s @ [(c, fs s)]\<rparr>
      in case fst (tool env c (fs s)) of
           Exits d rc \<Rightarrow> Returns (rc = 0) (s1\<lparr>fs := snd (tool env c (fs s))\<rparr>)
         | NeverExits \<Rightarrow> Hangs s1
         | CannotStart \<Rightarrow> Raises OSError s1
         | Garbled d \<Rightarrow> Raises UnicodeDecodeError (s1\<lparr>fs := snd (tool env c (fs s))\<rparr>))"
  by (simp add: run_registration_def run_subprocess_def Let_def split: behaviour.splits)

lemma run_hdbet_cases:
  "run_hdbet env slicer a b c d bt s =
     (let h = HDBET slicer a b c d bt;
          s1 = (say (DebugRunning h) s)\<lparr>launches := launches s @ [(h, fs s)]\<rparr>;
          s2 = s1\<lparr>fs := snd (tool env h (fs s))\<rparr>
      in case fst (tool env h (fs s)) of
           Exits dur rc \<Rightarrow>
             if int dur \<le> bt + 120
             then Returns (rc = 0 \<and> nonzero_file (fs s2) b \<and> nonzero_file (fs s2) c) s2
             else Returns False (say (HdbetTimeout bt) s2)
         | NeverExits \<Rightarrow> Returns False (say (HdbetTimeout bt) s2)
         | CannotStart \<Rightarrow> Raises OSError s1
         | Garbled dur \<Rightarrow>
             if int dur \<le> bt + 120 then Raises UnicodeDecodeError s2
             else Returns False (say (HdbetTimeout bt) s2))"
  by (simp add: run_hdbet_def run_subprocess_def Let_def split: behaviour.splits)

lemma run_hdbet_launches:
  "launches (final_world (run_hdbet env slicer a b c d bt s))
   = launches s @ [(HDBET slicer a b c d bt, fs s)]"
  by (cases "fst (tool env (HDBET slicer a b c d bt) (fs s))")
     (simp_all add: run_hdbet_cases Let_def)








section \<open>One case\<close>

lemma process_case_unfold:
  "process_case env idx tot mov atlas ps overwrite iterations sampling slicer bet_timeout s =
     (if all_outputs (fs s) ps mov \<and> \<not> overwrite
      then Returns True (say (Skip idx tot (basename_no_nii_gz mov)) s)
      else if \<not> nonzero_file (fs s) (reg_path ps mov) \<or> overwrite then
          (case run_registration env slicer atlas mov (reg_path ps mov) (xfm_path ps mov)
                  iterations sampling (say (RunCase idx tot (basename_no_nii_gz mov)) s) of
             Returns ok s' \<Rightarrow>
               if \<not> ok then Returns False (say (FailBRAINSFit (basename_no_nii_gz mov)) s')
               else second_stage env (basename_no_nii_gz mov) (reg_path ps mov) (xfm_path ps mov)
                      (bet_path ps mov) (seg_path ps mov) (betlog_path ps mov) overwrite slicer
                      bet_timeout s'
           | Raises e s' \<Rightarrow> Raises e s'
           | Hangs s' \<Rightarrow> Hangs s')
        else second_stage env (basename_no_nii_gz mov) (reg_path ps mov) (xfm_path ps mov)
               (bet_path ps mov) (seg_path ps mov) (betlog_path ps mov) overwrite slicer
               bet_timeout (say InfoRegExists (say (RunCase idx tot (basename_no_nii_gz mov)) s)))"
  by (simp only: process_case_def Let_def all_outputs_def reg_path_def xfm_path_def bet_path_def
        seg_path_def betlog_path_def say_simps conj_assoc)

lemma second_stage_launches:
  "launches (final_world (second_stage env (basename_no_nii_gz mov) (reg_path ps mov)
      (xfm_path ps mov) (bet_path ps mov) (seg_path ps mov) (betlog_path ps mov) overwrite slicer
      bet_timeout s))
   = launches s @ stage2_trace slicer mov ps overwrite bet_timeout (fs s)"
proof (cases "\<not> nonzero_file (fs s) (bet_path ps mov) \<or> \<not> nonzero_file (fs s) (seg_path ps mov)
              \<or> overwrite")
  case False
  then show ?thesis
    by (simp add: second_stage_def stage2_trace_def report_outputs_world)
next
  case True
  let ?r = "run_hdbet env slicer (reg_path ps mov) (bet_path ps mov) (seg_path ps mov)
              (betlog_path ps mov) bet_timeout s"
  have l: "launches (final_world ?r) = launches s @ [(stage2_cmd slicer mov ps bet_timeout, fs s)]"
    by (simp add: run_hdbet_launches stage2_cmd_def)
  show ?thesis
  proof (cases ?r)
    case (Returns ok s')
    with True l show ?thesis
      by (auto simp: second_stage_def stage2_trace_def report_outputs_world)
  next
    case (Raises e s')
    with True l show ?thesis by (auto simp: second_stage_def stage2_trace_def)
  next
    case (Hangs s')
    with True l show ?thesis by (auto simp: second_stage_def stage2_trace_def)
  qed
qed

lemma process_case_launches:
  "launches (final_world (process_case env idx tot mov atlas ps overwrite iterations sampling
      slicer bet_timeout s))
   = launches s @ case_trace env mov atlas ps overwrite iterations sampling slicer bet_timeout (fs s)"
  by (simp add: process_case_unfold case_trace_def run_registration_cases Let_def
        second_stage_launches stage1_cmd_def split: behaviour.splits)

lemma launched_process_case:
  "launched s (process_case env idx tot mov atlas ps overwrite iterations sampling slicer
      bet_timeout s)
   = case_trace env mov atlas ps overwrite iterations sampling slicer bet_timeout (fs s)"
  by (simp add: launched_def process_case_launches)

lemma stage_cmd_kinds [simp]:
  "is_stage1 (stage1_cmd slicer atlas mov ps iterations sampling)"
  "\<not> is_stage2 (stage1_cmd slicer atlas mov ps iterations sampling)"
  "is_stage2 (stage2_cmd slicer mov ps bet_timeout)"
  "\<not> is_stage1 (stage2_cmd slicer mov ps bet_timeout)"
  by (simp_all add: stage1_cmd_def stage2_cmd_def)

lemma in_stage2_trace:
  assumes "(c, t') \<in> set (stage2_trace slicer mov ps overwrite bet_timeout t)"
  shows "c = stage2_cmd slicer mov ps bet_timeout \<and> t' = t
         \<and> stage2_trace slicer mov ps overwrite bet_timeout t = [(c, t')]"
  using assms by (simp add: stage2_trace_def split: if_splits)

lemma stage2_trace_kinds:
  "x \<in> set (stage2_trace slicer mov ps overwrite bet_timeout t) \<Longrightarrow> is_stage2 (fst x)"
  by (simp add: stage2_trace_def split: if_splits)


text \<open>
  C8. The artifact check \<^verbatim>\<open>nonzero_file\<close> is a total boolean function: it is true exactly
  when the path is a regular file of size greater than zero, and it is false, rather than
  an exception, when \<^verbatim>\<open>is_file\<close> raises or when the path cannot be reached; an existing
  file of zero bytes gives false.
\<close>

theorem nonzero_file_spec:
  "(nonzero_file t p \<longleftrightarrow> (\<exists>k. os_stat t p = Inr \<lparr>st_mode = S_IFREG, st_size = k\<rparr> \<and> 0 < k))
   \<and> (is_file t p = Inl e \<longrightarrow> nonzero_file t p = False)
   \<and> (os_stat t p = Inl e \<longrightarrow> nonzero_file t p = False)
   \<and> (os_stat t p = Inr \<lparr>st_mode = S_IFREG, st_size = 0\<rparr> \<longrightarrow> nonzero_file t p = False)"
  using nonzero_file_iff [of t p] by (auto simp: nonzero_file_def)

theorem nonzero_file_spec_witness:
  "is_file fs_small [''locked'', ''x''] = Inl PermissionError
   \<and> nonzero_file fs_small [''locked'', ''x''] = False
   \<and> os_stat fs_small [''gone''] = Inl FileNotFoundError
   \<and> nonzero_file fs_small [''gone''] = False
   \<and> os_stat fs_small [''empty''] = Inr \<lparr>st_mode = S_IFREG, st_size = 0\<rparr>
   \<and> nonzero_file fs_small [''empty''] = False
   \<and> nonzero_file fs_small [''vol''] = True"
  using nonzero_file_spec [of fs_small "[''locked'', ''x'']" PermissionError]
    nonzero_file_spec [of fs_small "[''gone'']" FileNotFoundError]
    nonzero_file_spec [of fs_small "[''empty'']"]
    nonzero_file_spec [of fs_small "[''vol'']"]
  by (simp add: fs_small_def is_file_def ignore_error_def)

subsection \<open>Which stage is launched when\<close>

text \<open>
  C1, as the claim states it, fails: with the registered volume present, the transform
  missing and no overwrite, the first stage is not launched and the second stage is, on a
  filesystem where the first stage's artifact set is incomplete.
\<close>

theorem stage2_without_transform:
  "launched (demo_world (demo_fs (Some 8) None None None))
     (process_case good_env 1 1 demo_mov demo_atlas demo_paths False 1500 0.05 demo_slicer 1800
        (demo_world (demo_fs (Some 8) None None None)))
   = [(stage2_cmd demo_slicer demo_mov demo_paths 1800, demo_fs (Some 8) None None None)]
   \<and> nonzero_file (demo_fs (Some 8) None None None) (xfm_path demo_paths demo_mov) = False"
  by code_simp

text \<open>
  C1, amended. Whenever \<^verbatim>\<open>process_case\<close> launches the second stage, either the first stage
  was not launched, overwrite was not requested and the registered volume exists with
  non-zero size on the filesystem the second stage starts on, or the first stage was
  launched just before and exited with status 0. The transform file plays no part.
\<close>

theorem stage2_needs_registered_volume:
  assumes lch: "(c, t) \<in> set (launched s (process_case env idx tot mov atlas ps overwrite iterations
                sampling slicer bet_timeout s))"
    and kind: "is_stage2 c"
  shows "(t = fs s \<and> nonzero_file t (reg_path ps mov) \<and> \<not> overwrite
          \<and> launched s (process_case env idx tot mov atlas ps overwrite iterations sampling
               slicer bet_timeout s) = [(c, t)])
       \<or> (\<exists>d. fst (tool env (stage1_cmd slicer atlas mov ps iterations sampling) (fs s)) = Exits d 0
             \<and> t = snd (tool env (stage1_cmd slicer atlas mov ps iterations sampling) (fs s))
             \<and> launched s (process_case env idx tot mov atlas ps overwrite iterations sampling
                  slicer bet_timeout s)
                = [(stage1_cmd slicer atlas mov ps iterations sampling, fs s), (c, t)])"
proof -
  let ?R = "stage1_cmd slicer atlas mov ps iterations sampling"
  let ?tr = "case_trace env mov atlas ps overwrite iterations sampling slicer bet_timeout (fs s)"
  from lch have mem: "(c, t) \<in> set ?tr"
    by (simp only: launched_process_case)
  have eq: "launched s (process_case env idx tot mov atlas ps overwrite iterations sampling
               slicer bet_timeout s) = ?tr"
    by (rule launched_process_case)
  show ?thesis
  proof (cases "all_outputs (fs s) ps mov \<and> \<not> overwrite")
    case True
    with mem show ?thesis by (simp add: case_trace_def)
  next
    case noskip: False
    show ?thesis
    proof (cases "\<not> nonzero_file (fs s) (reg_path ps mov) \<or> overwrite")
      case False
      with noskip have tr: "?tr = stage2_trace slicer mov ps overwrite bet_timeout (fs s)"
        by (simp add: case_trace_def)
      from in_stage2_trace [OF mem [unfolded tr]] False tr eq show ?thesis by simp
    next
      case gate: True
      show ?thesis
      proof (cases "fst (tool env ?R (fs s))")
        case NeverExits
        with noskip gate have "?tr = [(?R, fs s)]" by (simp add: case_trace_def)
        with mem kind show ?thesis by auto
      next
        case CannotStart
        with noskip gate have "?tr = [(?R, fs s)]" by (simp add: case_trace_def)
        with mem kind show ?thesis by auto
      next
        case (Garbled d)
        with noskip gate have "?tr = [(?R, fs s)]" by (simp add: case_trace_def)
        with mem kind show ?thesis by auto
      next
        case (Exits d rc)
        show ?thesis
        proof (cases "rc = 0")
          case False
          with Exits noskip gate have "?tr = [(?R, fs s)]" by (simp add: case_trace_def)
          with mem kind show ?thesis by auto
        next
          case True
          with Exits noskip gate have tr: "?tr = (?R, fs s) #
              stage2_trace slicer mov ps overwrite bet_timeout (snd (tool env ?R (fs s)))"
            by (simp add: case_trace_def)
          with mem kind have "(c, t) \<in> set (stage2_trace slicer mov ps overwrite bet_timeout
              (snd (tool env ?R (fs s))))"
            by auto
          from in_stage2_trace [OF this] tr eq Exits True show ?thesis by simp
        qed
      qed
    qed
  qed
qed

theorem stage2_needs_registered_volume_witness:
  "(stage2_cmd demo_slicer demo_mov demo_paths 1800, demo_fs (Some 8) None None None)
     \<in> set (launched (demo_world (demo_fs (Some 8) None None None))
         (process_case good_env 1 1 demo_mov demo_atlas demo_paths False 1500 0.05 demo_slicer 1800
            (demo_world (demo_fs (Some 8) None None None))))
   \<and> is_stage2 (stage2_cmd demo_slicer demo_mov demo_paths 1800)
   \<and> demo_fs (Some 8) None None None = fs (demo_world (demo_fs (Some 8) None None None))
   \<and> nonzero_file (demo_fs (Some 8) None None None) (reg_path demo_paths demo_mov)"
proof -
  have h1: "(stage2_cmd demo_slicer demo_mov demo_paths 1800, demo_fs (Some 8) None None None)
     \<in> set (launched (demo_world (demo_fs (Some 8) None None None))
         (process_case good_env 1 1 demo_mov demo_atlas demo_paths False 1500 0.05 demo_slicer 1800
            (demo_world (demo_fs (Some 8) None None None))))"
    by code_simp
  have h2: "is_stage2 (stage2_cmd demo_slicer demo_mov demo_paths 1800)"
    by simp
  have h3: "length (launched (demo_world (demo_fs (Some 8) None None None))
         (process_case good_env 1 1 demo_mov demo_atlas demo_paths False 1500 0.05 demo_slicer 1800
            (demo_world (demo_fs (Some 8) None None None)))) = 1"
    by code_simp
  from stage2_needs_registered_volume [OF h1 h2] h3 h1 h2 show ?thesis
    by auto
qed

text \<open>
  C2, as the claim states it, fails: with the registered volume present, the transform file
  of zero bytes and no overwrite, nothing at all is launched.
\<close>

theorem no_registration_for_empty_transform:
  "nonzero_file (demo_fs (Some 8) (Some 0) (Some 6) (Some 3)) (xfm_path demo_paths demo_mov) = False
   \<and> launched (demo_world (demo_fs (Some 8) (Some 0) (Some 6) (Some 3)))
       (process_case good_env 1 1 demo_mov demo_atlas demo_paths False 1500 0.05 demo_slicer 1800
          (demo_world (demo_fs (Some 8) (Some 0) (Some 6) (Some 3)))) = []"
  by code_simp

text \<open>
  C2, amended. When the registered volume is missing or of zero bytes, or when overwrite is
  requested, the first thing \<^verbatim>\<open>process_case\<close> does is to launch the first stage. When the
  registered volume exists with non-zero size and overwrite is not requested, the first
  stage is not launched, whatever the state of the transform file.
\<close>

theorem registration_gate:
  "((\<not> nonzero_file (fs s) (reg_path ps mov) \<or> overwrite) \<longrightarrow>
      (\<exists>rest. launched s (process_case env idx tot mov atlas ps overwrite iterations sampling
                 slicer bet_timeout s)
               = (stage1_cmd slicer atlas mov ps iterations sampling, fs s) # rest))
   \<and> ((nonzero_file (fs s) (reg_path ps mov) \<and> \<not> overwrite) \<longrightarrow>
      (\<forall>x \<in> set (launched s (process_case env idx tot mov atlas ps overwrite iterations sampling
                    slicer bet_timeout s)). is_stage2 (fst x)))"
proof (intro conjI impI)
  assume gate: "\<not> nonzero_file (fs s) (reg_path ps mov) \<or> overwrite"
  then have "\<not> (all_outputs (fs s) ps mov \<and> \<not> overwrite)"
    by (auto simp: all_outputs_def)
  with gate show "\<exists>rest. launched s (process_case env idx tot mov atlas ps overwrite iterations
      sampling slicer bet_timeout s) = (stage1_cmd slicer atlas mov ps iterations sampling, fs s) # rest"
    by (simp add: launched_process_case case_trace_def)
next
  assume nogate: "nonzero_file (fs s) (reg_path ps mov) \<and> \<not> overwrite"
  show "\<forall>x \<in> set (launched s (process_case env idx tot mov atlas ps overwrite iterations sampling
                    slicer bet_timeout s)). is_stage2 (fst x)"
  proof (cases "all_outputs (fs s) ps mov")
    case True
    with nogate show ?thesis by (simp add: launched_process_case case_trace_def)
  next
    case False
    with nogate have "case_trace env mov atlas ps overwrite iterations sampling slicer bet_timeout (fs s)
        = stage2_trace slicer mov ps overwrite bet_timeout (fs s)"
      by (simp add: case_trace_def)
    then show ?thesis
      by (simp add: launched_process_case stage2_trace_kinds)
  qed
qed

theorem registration_gate_witness:
  "\<not> nonzero_file (fs (demo_world (demo_fs (Some 0) (Some 2) None None))) (reg_path demo_paths demo_mov)
   \<and> (\<exists>rest. launched (demo_world (demo_fs (Some 0) (Some 2) None None))
        (process_case good_env 1 1 demo_mov demo_atlas demo_paths False 1500 0.05 demo_slicer 1800
           (demo_world (demo_fs (Some 0) (Some 2) None None)))
       = (stage1_cmd demo_slicer demo_atlas demo_mov demo_paths 1500 0.05,
          fs (demo_world (demo_fs (Some 0) (Some 2) None None))) # rest)
   \<and> nonzero_file (fs (demo_world (demo_fs (Some 8) None None None))) (reg_path demo_paths demo_mov)
   \<and> list_all (\<lambda>x. is_stage2 (fst x)) (launched (demo_world (demo_fs (Some 8) None None None))
        (process_case good_env 1 1 demo_mov demo_atlas demo_paths False 1500 0.05 demo_slicer 1800
           (demo_world (demo_fs (Some 8) None None None))))"
proof -
  have h1: "\<not> nonzero_file (fs (demo_world (demo_fs (Some 0) (Some 2) None None)))
               (reg_path demo_paths demo_mov)"
    by code_simp
  have h2: "nonzero_file (fs (demo_world (demo_fs (Some 8) None None None)))
              (reg_path demo_paths demo_mov)"
    by code_simp
  from registration_gate [of "demo_world (demo_fs (Some 0) (Some 2) None None)" demo_paths demo_mov
      False good_env 1 1 demo_atlas 1500 "0.05" demo_slicer 1800] h1
  have c1: "\<exists>rest. launched (demo_world (demo_fs (Some 0) (Some 2) None None))
        (process_case good_env 1 1 demo_mov demo_atlas demo_paths False 1500 0.05 demo_slicer 1800
           (demo_world (demo_fs (Some 0) (Some 2) None None)))
       = (stage1_cmd demo_slicer demo_atlas demo_mov demo_paths 1500 0.05,
          fs (demo_world (demo_fs (Some 0) (Some 2) None None))) # rest"
    by blast
  from registration_gate [of "demo_world (demo_fs (Some 8) None None None)" demo_paths demo_mov
      False good_env 1 1 demo_atlas 1500 "0.05" demo_slicer 1800] h2
  have c2: "list_all (\<lambda>x. is_stage2 (fst x)) (launched (demo_world (demo_fs (Some 8) None None None))
        (process_case good_env 1 1 demo_mov demo_atlas demo_paths False 1500 0.05 demo_slicer 1800
           (demo_world (demo_fs (Some 8) None None None))))"
    unfolding list_all_iff by blast
  from h1 c1 h2 c2 show ?thesis by blast
qed

subsection \<open>Waiting for the external programs\<close>











subsection \<open>Items whose outputs are all there\<close>

lemma process_case_skip:
  assumes "all_outputs (fs s) ps mov" and "\<not> overwrite"
  shows "process_case env idx tot mov atlas ps overwrite iterations sampling slicer bet_timeout s
         = Returns True (say (Skip idx tot (basename_no_nii_gz mov)) s)"
  using assms by (simp add: process_case_unfold)

lemma batch_loop_all_skipped:
  assumes "\<forall>mov \<in> set imgs. all_outputs (fs s) ps mov" and "\<not> overwrite"
  shows "batch_loop env tot atlas ps overwrite iterations sampling slicer bet_timeout idx imgs n_done s
         = Returns (n_done + length imgs) (s\<lparr>logged := logged s @ skip_lines tot idx imgs\<rparr>)"
  using assms
proof (induction imgs arbitrary: idx n_done s)
  case Nil
  then show ?case by simp
next
  case (Cons mov rest)
  let ?s1 = "say Rule (say (Skip idx tot (basename_no_nii_gz mov)) s)"
  from Cons.prems have skip: "process_case env idx tot mov atlas ps overwrite iterations sampling
      slicer bet_timeout s = Returns True (say (Skip idx tot (basename_no_nii_gz mov)) s)"
    by (simp add: process_case_skip)
  from Cons.prems have "\<forall>m \<in> set rest. all_outputs (fs ?s1) ps m"
    by simp
  from Cons.IH [OF this Cons.prems(2)]
  have "batch_loop env tot atlas ps overwrite iterations sampling slicer bet_timeout (Suc idx) rest
          (Suc n_done) ?s1
        = Returns (Suc n_done + length rest) (?s1\<lparr>logged := logged ?s1 @ skip_lines tot (Suc idx) rest\<rparr>)" .
  with skip show ?case
    by (simp add: say_def)
qed

text \<open>
  C3, as the claim states it, fails in its last part: a first batch run can count every item
  as a success (exit status 0, summary 1/1) although the transform of the item is missing;
  the second run then does not skip the item: it logs that it runs the case and reports the
  transform as missing.
\<close>

theorem second_run_not_skipped:
  "status_of first_run = Some 0
   \<and> Summary 1 1 \<in> set (logged (final_world first_run))
   \<and> status_of second_run = Some 0
   \<and> logged (final_world second_run) =
       [InfoLauncher demo_slicer, InfoInputs 1, InfoAtlas demo_atlas, InfoOutDir [''out''], Rule,
        RunCase 1 1 ''case1'', InfoRegExists, InfoBetExists,
        OkRegistered (reg_path demo_paths demo_mov) True,
        OkTransform (xfm_path demo_paths demo_mov) False,
        OkBetVolume (bet_path demo_paths demo_mov) True,
        OkBetSeg (seg_path demo_paths demo_mov) True,
        HdbetLog (betlog_path demo_paths demo_mov) False,
        Rule, Summary 1 1]"
  by code_simp

text \<open>
  C3, amended. An item whose four outputs all exist with non-zero size, with overwrite not
  requested, is skipped: \<^verbatim>\<open>process_case\<close> returns true, logs the skip, launches nothing and
  leaves the filesystem as it is. Hence a batch loop over items whose outputs are all
  complete skips every item, counts every item, launches nothing and changes no file. (A
  run that counted every item as a success need not leave every output complete.)
\<close>

theorem skip_when_complete:
  "(all_outputs (fs s) ps mov \<and> \<not> overwrite \<longrightarrow>
      process_case env idx tot mov atlas ps overwrite iterations sampling slicer bet_timeout s
        = Returns True (say (Skip idx tot (basename_no_nii_gz mov)) s)
      \<and> launched s (process_case env idx tot mov atlas ps overwrite iterations sampling slicer
           bet_timeout s) = []
      \<and> fs (final_world (process_case env idx tot mov atlas ps overwrite iterations sampling slicer
           bet_timeout s)) = fs s)
   \<and> ((\<forall>m \<in> set imgs. all_outputs (fs s) ps m) \<and> \<not> overwrite \<longrightarrow>
      (\<exists>s'. batch_loop env tot atlas ps overwrite iterations sampling slicer bet_timeout idx imgs
               n_done s = Returns (n_done + length imgs) s'
          \<and> fs s' = fs s \<and> launches s' = launches s
          \<and> logged s' = logged s @ skip_lines tot idx imgs))"
proof (intro conjI impI)
  assume a: "all_outputs (fs s) ps mov \<and> \<not> overwrite"
  then have eq: "process_case env idx tot mov atlas ps overwrite iterations sampling slicer
      bet_timeout s = Returns True (say (Skip idx tot (basename_no_nii_gz mov)) s)"
    by (simp add: process_case_skip)
  then show "process_case env idx tot mov atlas ps overwrite iterations sampling slicer
      bet_timeout s = Returns True (say (Skip idx tot (basename_no_nii_gz mov)) s)" .
  from eq show "launched s (process_case env idx tot mov atlas ps overwrite iterations sampling
      slicer bet_timeout s) = []"
    by (simp add: launched_def)
  from eq show "fs (final_world (process_case env idx tot mov atlas ps overwrite iterations
      sampling slicer bet_timeout s)) = fs s"
    by simp
next
  assume a: "(\<forall>m \<in> set imgs. all_outputs (fs s) ps m) \<and> \<not> overwrite"
  then have "batch_loop env tot atlas ps overwrite iterations sampling slicer bet_timeout idx imgs
      n_done s = Returns (n_done + length imgs) (s\<lparr>logged := logged s @ skip_lines tot idx imgs\<rparr>)"
    by (simp add: batch_loop_all_skipped)
  then show "\<exists>s'. batch_loop env tot atlas ps overwrite iterations sampling slicer bet_timeout idx
      imgs n_done s = Returns (n_done + length imgs) s'
          \<and> fs s' = fs s \<and> launches s' = launches s
          \<and> logged s' = logged s @ skip_lines tot idx imgs"
    by simp
qed

theorem skip_when_complete_witness:
  "all_outputs (fs (demo_world (demo_fs (Some 8) (Some 2) (Some 6) (Some 3)))) demo_paths demo_mov
   \<and> process_case good_env 1 1 demo_mov demo_atlas demo_paths False 1500 0.05 demo_slicer 1800
        (demo_world (demo_fs (Some 8) (Some 2) (Some 6) (Some 3)))
      = Returns True (say (Skip 1 1 (basename_no_nii_gz demo_mov))
          (demo_world (demo_fs (Some 8) (Some 2) (Some 6) (Some 3))))
   \<and> list_all (all_outputs (fs (demo_world (demo_fs (Some 8) (Some 2) (Some 6) (Some 3)))) demo_paths)
       [demo_mov]
   \<and> (\<exists>s'. batch_loop good_env 1 demo_atlas demo_paths False 1500 0.05 demo_slicer 1800 1 [demo_mov]
             0 (demo_world (demo_fs (Some 8) (Some 2) (Some 6) (Some 3))) = Returns 1 s'
        \<and> fs s' = demo_fs (Some 8) (Some 2) (Some 6) (Some 3) \<and> launches s' = []
        \<and> logged s' = [Skip 1 1 ''case1'', Rule])"
proof -
  let ?w = "demo_world (demo_fs (Some 8) (Some 2) (Some 6) (Some 3))"
  have h1: "all_outputs (fs ?w) demo_paths demo_mov"
    by code_simp
  have nm: "basename_no_nii_gz demo_mov = ''case1''"
    by code_simp
  from skip_when_complete [of ?w demo_paths demo_mov False good_env 1 1 demo_atlas 1500 "0.05"
      demo_slicer 1800] h1
  have c1: "process_case good_env 1 1 demo_mov demo_atlas demo_paths False 1500 0.05 demo_slicer 1800 ?w
      = Returns True (say (Skip 1 1 (basename_no_nii_gz demo_mov)) ?w)"
    by blast
  have h2: "list_all (all_outputs (fs ?w) demo_paths) [demo_mov]"
    using h1 by simp
  then have h2': "(\<forall>m \<in> set [demo_mov]. all_outputs (fs ?w) demo_paths m) \<and> \<not> False"
    by simp
  from skip_when_complete [where s = ?w and ps = demo_paths and imgs = "[demo_mov]"
      and overwrite = False and env = good_env and tot = 1 and atlas = demo_atlas
      and iterations = 1500 and sampling = "0.05" and slicer = demo_slicer and bet_timeout = 1800
      and idx = 1 and n_done = 0] h2'
  have c2: "\<exists>s'. batch_loop good_env 1 demo_atlas demo_paths False 1500 0.05 demo_slicer 1800 1
             [demo_mov] 0 ?w = Returns 1 s'
        \<and> fs s' = demo_fs (Some 8) (Some 2) (Some 6) (Some 3) \<and> launches s' = []
        \<and> logged s' = [Skip 1 1 ''case1'', Rule]"
    by (simp add: demo_world_def nm)
  from h1 c1 h2 c2 show ?thesis by (intro conjI)
qed

subsection \<open>The batch\<close>

lemma length_filter_all:
  "length (filter P xs) = length xs \<longleftrightarrow> (\<forall>x \<in> set xs. P x)"
proof (induction xs)
  case Nil
  then show ?case by simp
next
  case (Cons x xs)
  have "length (filter P xs) \<noteq> Suc (length xs)"
    using length_filter_le [of P xs] by arith
  with Cons show ?case by auto
qed

lemma batch_loop_results:
  assumes "batch_loop env tot atlas ps overwrite iterations sampling slicer bet_timeout idx imgs
             n_done s = Returns d s'"
  shows "d = n_done + length (filter (\<lambda>ok. ok)
               (case_results env tot atlas ps overwrite iterations sampling slicer bet_timeout idx
                  imgs s))
         \<and> length (case_results env tot atlas ps overwrite iterations sampling slicer bet_timeout
                     idx imgs s) = length imgs"
  using assms
proof (induction imgs arbitrary: idx n_done s)
  case Nil
  then show ?case by simp
next
  case (Cons mov rest)
  show ?case
  proof (cases "process_case env idx tot mov atlas ps overwrite iterations sampling slicer
                  bet_timeout s")
    case (Returns ok s1)
    with Cons.prems have "batch_loop env tot atlas ps overwrite iterations sampling slicer
        bet_timeout (Suc idx) rest (n_done + (if ok then 1 else 0)) (say Rule s1) = Returns d s'"
      by simp
    from Cons.IH [OF this] Returns show ?thesis by simp
  next
    case (Raises e s1)
    with Cons.prems show ?thesis by simp
  next
    case (Hangs s1)
    with Cons.prems show ?thesis by simp
  qed
qed

lemma run_batch_loop:
  assumes "setup_output_dirs out_dir s = Returns ps s1"
    and "slicer_executable env (fs s1) = Inr slicer"
    and "is_file (fs s1) slicer = Inr True"
    and "is_file (fs s1) atlas = Inr True"
    and "find_images env (fs s1) in_dir pattern recursive = Inr imgs"
    and "imgs \<noteq> []"
  shows "run_batch env in_dir atlas out_dir pattern recursive overwrite iterations sampling
           bet_timeout s =
         (case batch_loop env (length imgs) atlas ps overwrite iterations sampling slicer
                 bet_timeout 1 imgs 0 (log_banner slicer imgs atlas out_dir s1) of
            Raises e s3 \<Rightarrow> Raises e s3
          | Hangs s3 \<Rightarrow> Hangs s3
          | Returns n_done s3 \<Rightarrow>
              Returns (if n_done = length imgs then 0 else 1)
                (say (Summary n_done (length imgs)) s3))"
  using assms by (simp add: run_batch_def Let_def)

lemma batch_loop_total:
  assumes "length (case_results env tot atlas ps overwrite iterations sampling slicer bet_timeout
                     idx imgs s) = length imgs"
  shows "\<exists>s'. batch_loop env tot atlas ps overwrite iterations sampling slicer bet_timeout idx imgs
                 n_done s
               = Returns (n_done + length (filter (\<lambda>ok. ok)
                    (case_results env tot atlas ps overwrite iterations sampling slicer bet_timeout
                       idx imgs s))) s'"
  using assms
proof (induction imgs arbitrary: idx n_done s)
  case Nil
  then show ?case by simp
next
  case (Cons mov rest)
  show ?case
  proof (cases "process_case env idx tot mov atlas ps overwrite iterations sampling slicer
                  bet_timeout s")
    case (Returns ok s1)
    with Cons.prems have "length (case_results env tot atlas ps overwrite iterations sampling
        slicer bet_timeout (Suc idx) rest (say Rule s1)) = length rest"
      by simp
    from Cons.IH [OF this, of "n_done + (if ok then 1 else 0)"] Returns show ?thesis
      by auto
  next
    case (Raises e s1)
    with Cons.prems show ?thesis by simp
  next
    case (Hangs s1)
    with Cons.prems show ?thesis by simp
  qed
qed

text \<open>
  C7. Let the batch reach the loop with at least one discovered item. When
  \<^verbatim>\<open>process_case\<close> returns for every item in turn, the batch returns a status: 0 when it
  returned true for every item (the outcomes Succeeded and Skipped), 1 when it returned
  false for some item; and the last log line is the summary, whose count is the number of
  items for which it returned true, out of the number of discovered items. Conversely a
  batch that returns a status has had \<^verbatim>\<open>process_case\<close> return for every item.
\<close>

theorem batch_status_counts:
  assumes "setup_output_dirs out_dir s = Returns ps s1"
    and "slicer_executable env (fs s1) = Inr slicer"
    and "is_file (fs s1) slicer = Inr True"
    and "is_file (fs s1) atlas = Inr True"
    and "find_images env (fs s1) in_dir pattern recursive = Inr imgs"
    and "imgs \<noteq> []"
    and "results = case_results env (length imgs) atlas ps overwrite iterations sampling slicer
                     bet_timeout 1 imgs (log_banner slicer imgs atlas out_dir s1)"
  shows "(length results = length imgs \<longrightarrow>
            (\<exists>s'. run_batch env in_dir atlas out_dir pattern recursive overwrite iterations
                     sampling bet_timeout s
                   = Returns (if (\<forall>ok \<in> set results. ok) then 0 else 1) s'
                 \<and> last (logged s') = Summary (length (filter (\<lambda>ok. ok) results)) (length imgs)))
       \<and> (run_batch env in_dir atlas out_dir pattern recursive overwrite iterations sampling
            bet_timeout s = Returns rc s2 \<longrightarrow>
            length results = length imgs
            \<and> (rc = 0 \<longleftrightarrow> (\<forall>ok \<in> set results. ok))
            \<and> (rc = 1 \<longleftrightarrow> (\<exists>ok \<in> set results. \<not> ok))
            \<and> last (logged s2) = Summary (length (filter (\<lambda>ok. ok) results)) (length imgs))"
proof (intro conjI impI)
  let ?loop = "batch_loop env (length imgs) atlas ps overwrite iterations sampling slicer
                 bet_timeout 1 imgs 0 (log_banner slicer imgs atlas out_dir s1)"
  note run = run_batch_loop [OF assms(1-6), of overwrite iterations sampling bet_timeout]
  {
    assume len: "length results = length imgs"
    with assms(7) batch_loop_total [of env "length imgs" atlas ps overwrite iterations sampling
        slicer bet_timeout 1 imgs "log_banner slicer imgs atlas out_dir s1" 0]
    obtain s3 where loop: "?loop = Returns (length (filter (\<lambda>ok. ok) results)) s3"
      by auto
    from len have "length (filter (\<lambda>ok. ok) results) = length imgs \<longleftrightarrow> (\<forall>ok \<in> set results. ok)"
      using length_filter_all [of "\<lambda>ok. ok" results] by simp
    with run loop
    show "\<exists>s'. run_batch env in_dir atlas out_dir pattern recursive overwrite iterations
                     sampling bet_timeout s
                   = Returns (if (\<forall>ok \<in> set results. ok) then 0 else 1) s'
                 \<and> last (logged s') = Summary (length (filter (\<lambda>ok. ok) results)) (length imgs)"
      by simp
  }
  assume ret: "run_batch env in_dir atlas out_dir pattern recursive overwrite iterations sampling
            bet_timeout s = Returns rc s2"
  with run obtain d s3 where loop: "?loop = Returns d s3"
    and rc: "rc = (if d = length imgs then 0 else 1)"
    and s2: "s2 = say (Summary d (length imgs)) s3"
    by (cases ?loop) auto
  from batch_loop_results [OF loop] assms(7)
  have d: "d = length (filter (\<lambda>ok. ok) results)" and len: "length results = length imgs"
    by simp_all
  from d len have all: "d = length imgs \<longleftrightarrow> (\<forall>ok \<in> set results. ok)"
    using length_filter_all [of "\<lambda>ok. ok" results] by simp
  from len show "length results = length imgs" .
  from rc all show "rc = 0 \<longleftrightarrow> (\<forall>ok \<in> set results. ok)" by auto
  from rc all show "rc = 1 \<longleftrightarrow> (\<exists>ok \<in> set results. \<not> ok)" by auto
  from s2 d show "last (logged s2) = Summary (length (filter (\<lambda>ok. ok) results)) (length imgs)"
    by simp
qed

theorem batch_status_counts_witness:
  "setup_output_dirs [''out''] (demo_world duo_fs) = Returns demo_paths (demo_world duo_fs)
   \<and> slicer_executable (demo_env choosy_tool) duo_fs = Inr demo_slicer
   \<and> is_file duo_fs demo_slicer = Inr True
   \<and> is_file duo_fs demo_atlas = Inr True
   \<and> find_images (demo_env choosy_tool) duo_fs [''data''] None False
      = Inr [[''data'', ''case1.nii.gz''], [''data'', ''case2.nii.gz'']]
   \<and> case_results (demo_env choosy_tool) 2 demo_atlas demo_paths False 1500 0.05 demo_slicer 1800 1
        [[''data'', ''case1.nii.gz''], [''data'', ''case2.nii.gz'']]
        (log_banner demo_slicer [[''data'', ''case1.nii.gz''], [''data'', ''case2.nii.gz'']]
           demo_atlas [''out''] (demo_world duo_fs))
      = [False, True]
   \<and> (\<exists>s'. run_batch (demo_env choosy_tool) [''data''] demo_atlas [''out''] None False False 1500
          0.05 1800 (demo_world duo_fs) = Returns 1 s'
        \<and> last (logged s') = Summary 1 2)
   \<and> setup_output_dirs [''out''] (demo_world (demo_fs None None None None))
       = Returns demo_paths (demo_world (demo_fs None None None None))
   \<and> slicer_executable good_env (demo_fs None None None None) = Inr demo_slicer
   \<and> is_file (demo_fs None None None None) demo_slicer = Inr True
   \<and> is_file (demo_fs None None None None) demo_atlas = Inr True
   \<and> find_images good_env (demo_fs None None None None) [''data''] None False = Inr [demo_mov]
   \<and> case_results good_env 1 demo_atlas demo_paths False 1500 0.05 demo_slicer 1800 1 [demo_mov]
        (log_banner demo_slicer [demo_mov] demo_atlas [''out''] (demo_world (demo_fs None None None None)))
      = [True]
   \<and> (\<exists>s'. run_batch good_env [''data''] demo_atlas [''out''] None False False 1500 0.05 1800
          (demo_world (demo_fs None None None None)) = Returns 0 s'
        \<and> last (logged s') = Summary 1 1)
   \<and> run_batch good_env [''data''] demo_atlas [''out''] None False False 1500 0.05 1800
        (demo_world (demo_fs None None None None))
      = Returns 0 (final_world (run_batch good_env [''data''] demo_atlas [''out''] None False False
          1500 0.05 1800 (demo_world (demo_fs None None None None))))
   \<and> last (logged (final_world (run_batch good_env [''data''] demo_atlas [''out''] None False False
        1500 0.05 1800 (demo_world (demo_fs None None None None))))) = Summary 1 1"
proof -
  let ?v = "demo_world duo_fs"
  let ?e = "demo_env choosy_tool"
  let ?two = "[[''data'', ''case1.nii.gz''], [''data'', ''case2.nii.gz'']]"
  let ?w = "demo_world (demo_fs None None None None)"
  let ?r = "run_batch good_env [''data''] demo_atlas [''out''] None False False 1500 0.05 1800 ?w"
  have fv: "fs ?v = duo_fs" and fw: "fs ?w = demo_fs None None None None"
    by (simp_all add: demo_world_def)
  have d2: "setup_output_dirs [''out''] ?v = Returns demo_paths ?v"
    by code_simp
  have d3: "slicer_executable ?e (fs ?v) = Inr demo_slicer"
    by code_simp
  have d4: "is_file (fs ?v) demo_slicer = Inr True"
    by code_simp
  have d5: "is_file (fs ?v) demo_atlas = Inr True"
    by code_simp
  have d6: "find_images ?e (fs ?v) [''data''] None False = Inr ?two"
    by code_simp
  have d7: "?two \<noteq> []"
    by simp
  have d8: "case_results ?e 2 demo_atlas demo_paths False 1500 0.05 demo_slicer 1800 1 ?two
        (log_banner demo_slicer ?two demo_atlas [''out''] ?v) = [False, True]"
    by code_simp
  have l2: "length ?two = 2"
    by simp
  have d8': "[False, True] = case_results ?e (length ?two) demo_atlas demo_paths False 1500 0.05
        demo_slicer 1800 1 ?two (log_banner demo_slicer ?two demo_atlas [''out''] ?v)"
    unfolding l2 by (rule d8 [symmetric])
  from batch_status_counts [OF d2 d3 d4 d5 d6 d7 d8', THEN conjunct1]
  have c1: "\<exists>s'. run_batch ?e [''data''] demo_atlas [''out''] None False False 1500 0.05 1800 ?v
               = Returns 1 s' \<and> last (logged s') = Summary 1 2"
    by (simp add: numeral_2_eq_2)
  have h1: "?r = Returns 0 (final_world ?r)"
    by code_simp
  have h2: "setup_output_dirs [''out''] ?w = Returns demo_paths ?w"
    by code_simp
  have h3: "slicer_executable good_env (fs ?w) = Inr demo_slicer"
    by code_simp
  have h4: "is_file (fs ?w) demo_slicer = Inr True"
    by code_simp
  have h5: "is_file (fs ?w) demo_atlas = Inr True"
    by code_simp
  have h6: "find_images good_env (fs ?w) [''data''] None False = Inr [demo_mov]"
    by code_simp
  have h7: "[demo_mov] \<noteq> []"
    by simp
  have h8: "case_results good_env 1 demo_atlas demo_paths False 1500 0.05 demo_slicer 1800 1 [demo_mov]
        (log_banner demo_slicer [demo_mov] demo_atlas [''out''] ?w) = [True]"
    by code_simp
  have h8': "[True] = case_results good_env (length [demo_mov]) demo_atlas demo_paths False 1500 0.05
        demo_slicer 1800 1 [demo_mov] (log_banner demo_slicer [demo_mov] demo_atlas [''out''] ?w)"
    using h8 by simp
  note good = batch_status_counts [OF h2 h3 h4 h5 h6 h7 h8', where rc = 0
      and ?s2.0 = "final_world ?r"]
  from good
  have c2: "\<exists>s'. ?r = Returns 0 s' \<and> last (logged s') = Summary 1 1"
    by simp
  from good h1
  have c3: "last (logged (final_world ?r)) = Summary 1 1"
    by simp
  from d2 d3 d4 d5 d6 d8 c1 h2 h3 h4 h5 h6 h8 c2 h1 c3 show ?thesis
    unfolding fv fw by (intro conjI)
qed

text \<open>
  C4, as the claim states it, fails: with the launcher and the atlas in place and an input
  directory without images, the batch returns status 1, the status it also returns when an
  item failed.
\<close>

theorem empty_discovery_returns_one:
  "find_images good_env (demo_fs None None None None) [''out'', ''log''] None False = Inr []
   \<and> status_of (run_batch good_env [''out'', ''log''] demo_atlas [''out''] None False False 1500 0.05
        1800 (demo_world (demo_fs None None None None))) = Some 1"
  by code_simp

text \<open>
  C4, amended. When discovery finds no input item, the batch aborts with status 1. That is
  distinct from 0 and from the status 2 returned when the launcher or the atlas is missing,
  and it is the status the batch also returns when the loop counted fewer successes than
  items.
\<close>

theorem empty_discovery_status:
  assumes "setup_output_dirs out_dir s = Returns ps s1"
    and "slicer_executable env (fs s1) = Inr slicer"
  shows "(is_file (fs s1) slicer = Inr True \<and> is_file (fs s1) atlas = Inr True
          \<and> find_images env (fs s1) in_dir pattern recursive = Inr [] \<longrightarrow>
            run_batch env in_dir atlas out_dir pattern recursive overwrite iterations sampling
              bet_timeout s = Returns 1 (say ErrNoImages s1))
       \<and> (is_file (fs s1) slicer = Inr False \<longrightarrow>
            run_batch env in_dir atlas out_dir pattern recursive overwrite iterations sampling
              bet_timeout s = Returns 2 (say ErrNoSlicer s1))
       \<and> (is_file (fs s1) slicer = Inr True \<and> is_file (fs s1) atlas = Inr False \<longrightarrow>
            run_batch env in_dir atlas out_dir pattern recursive overwrite iterations sampling
              bet_timeout s = Returns 2 (say (ErrNoAtlas atlas) s1))
       \<and> (is_file (fs s1) slicer = Inr True \<and> is_file (fs s1) atlas = Inr True
          \<and> find_images env (fs s1) in_dir pattern recursive = Inr imgs \<and> imgs \<noteq> []
          \<and> batch_loop env (length imgs) atlas ps overwrite iterations sampling slicer
               bet_timeout 1 imgs 0 (log_banner slicer imgs atlas out_dir s1) = Returns d s3
          \<and> d \<noteq> length imgs \<longrightarrow>
            run_batch env in_dir atlas out_dir pattern recursive overwrite iterations sampling
              bet_timeout s = Returns 1 (say (Summary d (length imgs)) s3))"
  using assms by (simp add: run_batch_def Let_def)

theorem empty_discovery_status_witness:
  "setup_output_dirs [''out''] (demo_world (demo_fs (Some 8) None None None))
     = Returns demo_paths (demo_world (demo_fs (Some 8) None None None))
   \<and> slicer_executable good_env (fs (demo_world (demo_fs (Some 8) None None None))) = Inr demo_slicer
   \<and> is_file (fs (demo_world (demo_fs (Some 8) None None None))) demo_slicer = Inr True
   \<and> is_file (fs (demo_world (demo_fs (Some 8) None None None))) demo_atlas = Inr True
   \<and> find_images good_env (fs (demo_world (demo_fs (Some 8) None None None))) [''out'', ''log''] None
        False = Inr []
   \<and> run_batch good_env [''out'', ''log''] demo_atlas [''out''] None False False 1500 0.05 1800
        (demo_world (demo_fs (Some 8) None None None))
      = Returns 1 (say ErrNoImages (demo_world (demo_fs (Some 8) None None None)))
   \<and> slicer_executable lost_env (fs (demo_world (demo_fs (Some 8) None None None)))
      = Inr [''usr'', ''Slicer.exe'']
   \<and> is_file (fs (demo_world (demo_fs (Some 8) None None None))) [''usr'', ''Slicer.exe''] = Inr False
   \<and> run_batch lost_env [''data''] demo_atlas [''out''] None False False 1500 0.05 1800
        (demo_world (demo_fs (Some 8) None None None))
      = Returns 2 (say ErrNoSlicer (demo_world (demo_fs (Some 8) None None None)))
   \<and> is_file (fs (demo_world (demo_fs (Some 8) None None None))) [''mni.nii''] = Inr False
   \<and> run_batch good_env [''data''] [''mni.nii''] [''out''] None False False 1500 0.05 1800
        (demo_world (demo_fs (Some 8) None None None))
      = Returns 2 (say (ErrNoAtlas [''mni.nii'']) (demo_world (demo_fs (Some 8) None None None)))
   \<and> find_images stuck2_env (fs (demo_world (demo_fs (Some 8) None None None))) [''data''] None False
      = Inr [demo_mov]
   \<and> batch_loop stuck2_env 1 demo_atlas demo_paths False 1500 0.05 demo_slicer 1800 1 [demo_mov] 0
        (log_banner demo_slicer [demo_mov] demo_atlas [''out'']
           (demo_world (demo_fs (Some 8) None None None)))
      = Returns 0 (final_world (batch_loop stuck2_env 1 demo_atlas demo_paths False 1500 0.05
           demo_slicer 1800 1 [demo_mov] 0 (log_banner demo_slicer [demo_mov] demo_atlas [''out'']
              (demo_world (demo_fs (Some 8) None None None)))))
   \<and> run_batch stuck2_env [''data''] demo_atlas [''out''] None False False 1500 0.05 1800
        (demo_world (demo_fs (Some 8) None None None))
      = Returns 1 (say (Summary 0 1) (final_world (batch_loop stuck2_env 1 demo_atlas demo_paths
           False 1500 0.05 demo_slicer 1800 1 [demo_mov] 0 (log_banner demo_slicer [demo_mov]
              demo_atlas [''out''] (demo_world (demo_fs (Some 8) None None None))))))"
proof -
  let ?w = "demo_world (demo_fs (Some 8) None None None)"
  let ?loop = "batch_loop stuck2_env 1 demo_atlas demo_paths False 1500 0.05 demo_slicer 1800 1
                 [demo_mov] 0 (log_banner demo_slicer [demo_mov] demo_atlas [''out''] ?w)"
  have h1: "setup_output_dirs [''out''] ?w = Returns demo_paths ?w"
    by code_simp
  have h2: "slicer_executable good_env (fs ?w) = Inr demo_slicer"
    by code_simp
  have h2s: "slicer_executable stuck2_env (fs ?w) = Inr demo_slicer"
    by code_simp
  have h3: "is_file (fs ?w) demo_slicer = Inr True"
    by code_simp
  have h4: "is_file (fs ?w) demo_atlas = Inr True"
    by code_simp
  have h5: "find_images good_env (fs ?w) [''out'', ''log''] None False = Inr []"
    by code_simp
  have h6: "slicer_executable lost_env (fs ?w) = Inr [''usr'', ''Slicer.exe'']"
    by code_simp
  have h7: "is_file (fs ?w) [''usr'', ''Slicer.exe''] = Inr False"
    by code_simp
  have h8: "is_file (fs ?w) [''mni.nii''] = Inr False"
    by code_simp
  have h9: "find_images stuck2_env (fs ?w) [''data''] None False = Inr [demo_mov]"
    by code_simp
  have h10: "?loop = Returns 0 (final_world ?loop)"
    by code_simp
  from empty_discovery_status [OF h1 h2, where atlas = demo_atlas and in_dir = "[''out'', ''log'']"
      and pattern = None and recursive = False] h3 h4 h5
  have c1: "run_batch good_env [''out'', ''log''] demo_atlas [''out''] None False False 1500 0.05 1800 ?w
      = Returns 1 (say ErrNoImages ?w)"
    by blast
  from empty_discovery_status [OF h1 h6] h7
  have c2: "run_batch lost_env [''data''] demo_atlas [''out''] None False False 1500 0.05 1800 ?w
      = Returns 2 (say ErrNoSlicer ?w)"
    by blast
  from empty_discovery_status [OF h1 h2, where atlas = "[''mni.nii'']"] h3 h8
  have c3: "run_batch good_env [''data''] [''mni.nii''] [''out''] None False False 1500 0.05 1800 ?w
      = Returns 2 (say (ErrNoAtlas [''mni.nii'']) ?w)"
    by blast
  from empty_discovery_status [OF h1 h2s, where atlas = demo_atlas and in_dir = "[''data'']"
      and pattern = None and recursive = False and imgs = "[demo_mov]" and overwrite = False
      and iterations = 1500 and sampling = "0.05" and bet_timeout = 1800 and d = 0
      and ?s3.0 = "final_world ?loop"] h3 h4 h9 h10
  have c4: "run_batch stuck2_env [''data''] demo_atlas [''out''] None False False 1500 0.05 1800 ?w
      = Returns 1 (say (Summary 0 1) (final_world ?loop))"
    by simp
  from h1 h2 h3 h4 h5 c1 h6 h7 c2 h8 c3 h9 h10 c4 show ?thesis
    by (intro conjI)
qed

subsection \<open>The output directories\<close>

lemma is_dir_simps [simp]:
  "is_dir (File k) p = False"
  "is_dir (Dir es) [] = True"
  "is_dir NoAccess [] = True"
  "is_dir NoAccess (c # cs) = False"
  "is_dir (Dir es) (c # cs) = (case map_of es c of None \<Rightarrow> False | Some n \<Rightarrow> is_dir n cs)"
  by (cases p; simp add: is_dir_def split: option.splits)+

lemma is_dir_new_dirs: "is_dir (new_dirs cs) cs"
  by (induction cs) simp_all

lemma mkdir_p_is_dir: "mkdir_p t p = Inr t' \<Longrightarrow> is_dir t' p"
proof (induction t p arbitrary: t' rule: mkdir_p.induct)
  case (6 es c cs)
  show ?case
  proof (cases "map_of es c")
    case None
    with 6 show ?thesis by (auto simp: is_dir_new_dirs map_add_def)
  next
    case (Some n)
    with 6 show ?thesis
      by (auto simp: update_conv' split: sum.splits)
  qed
qed auto

lemma mkdir_p_keeps_dirs: "mkdir_p t q = Inr t' \<Longrightarrow> is_dir t p \<Longrightarrow> is_dir t' p"
proof (induction t q arbitrary: t' p rule: mkdir_p.induct)
  case (6 es c cs)
  show ?case
  proof (cases p)
    case Nil
    with 6 show ?thesis by (auto split: option.splits sum.splits)
  next
    case (Cons c' cs')
    show ?thesis
    proof (cases "map_of es c")
      case None
      with 6 Cons show ?thesis by (auto simp: map_add_def split: option.splits)
    next
      case (Some n)
      with 6 Cons show ?thesis
        by (auto simp: update_conv' split: sum.splits option.splits)
    qed
  qed
qed auto

lemma ensure_dirs_creates:
  assumes "ensure_dirs ds s = Returns u s'"
  shows "(\<forall>d \<in> set ds. is_dir (fs s') d) \<and> (\<forall>p. is_dir (fs s) p \<longrightarrow> is_dir (fs s') p)
         \<and> launches s' = launches s \<and> logged s' = logged s"
  using assms
proof (induction ds arbitrary: s)
  case Nil
  then show ?case by simp
next
  case (Cons d ds)
  then obtain t where mk: "mkdir_p (fs s) d = Inr t"
    and rest: "ensure_dirs ds (s\<lparr>fs := t\<rparr>) = Returns u s'"
    by (auto split: sum.splits)
  from Cons.IH [OF rest] mkdir_p_is_dir [OF mk] mkdir_p_keeps_dirs [OF mk]
  show ?case by auto
qed

lemma setup_output_dirs_creates:
  assumes "setup_output_dirs out_dir s = Returns ps s1"
  shows "is_dir (fs s1) (joinpath out_dir ''register'') \<and> is_dir (fs s1) (joinpath out_dir ''bet'')
         \<and> is_dir (fs s1) (joinpath out_dir ''segment'') \<and> is_dir (fs s1) (joinpath out_dir ''log'')
         \<and> is_dir (fs s1) (joinpath out_dir ''transform'')
         \<and> launches s1 = launches s \<and> logged s1 = logged s"
proof -
  let ?ds = "[joinpath out_dir ''register'', joinpath out_dir ''bet'', joinpath out_dir ''segment'',
              joinpath out_dir ''log'', joinpath out_dir ''transform'']"
  from assms obtain u where "ensure_dirs ?ds s = Returns u s1"
    by (auto simp: setup_output_dirs_def Let_def split: run.splits)
  from ensure_dirs_creates [OF this] show ?thesis by simp
qed

lemma setup_output_dirs_raises:
  assumes "setup_output_dirs out_dir s = Raises e s1"
  shows "run_batch env in_dir atlas out_dir pattern recursive overwrite iterations sampling
           bet_timeout s = Raises e s1"
  using assms by (simp add: run_batch_def)

text \<open>
  For instance, with a regular file where the second directory should be, the first
  directory is created, the creation of the second raises, and so does the batch.
\<close>

lemma run_batch_dirs_blocked:
  "run_batch good_env [''data''] demo_atlas [''out''] None False False 1500 0.05 1800
     (demo_world blocked_fs)
   = Raises FileExistsError
       (demo_world (Dir [(''data'', Dir [(''case1.nii.gz'', File 9)]),
                         (''atlas.nii'', File 5),
                         (''opt'', Dir [(''Slicer.exe'', File 1), (''bin'', Dir [(''python'', File 1)])]),
                         (''out'', Dir [(''bet'', File 3), (''register'', Dir [])])]))"
  by code_simp

text \<open>
  C10. Whenever the creation of the output directories succeeds, the five directories
  (register, bet, segment, log, transform) exist under the output root before anything is
  logged or launched, and all that \<^verbatim>\<open>run_batch\<close> does afterwards is done on the filesystem
  so changed: the checks of the launcher and of the atlas and the discovery read it; a
  batch that aborts with the precondition status 2 or on an empty discovery, or that raises
  in a check or in discovery, ends on exactly that filesystem; and the loop starts on it.
\<close>

theorem output_dirs_created_first:
  assumes "setup_output_dirs out_dir s = Returns ps s1"
  shows "is_dir (fs s1) (joinpath out_dir ''register'') \<and> is_dir (fs s1) (joinpath out_dir ''bet'')
     \<and> is_dir (fs s1) (joinpath out_dir ''segment'') \<and> is_dir (fs s1) (joinpath out_dir ''log'')
     \<and> is_dir (fs s1) (joinpath out_dir ''transform'')
     \<and> launches s1 = launches s \<and> logged s1 = logged s
     \<and> (slicer_executable env (fs s1) = Inl e \<longrightarrow>
          run_batch env in_dir atlas out_dir pattern recursive overwrite iterations sampling
            bet_timeout s = Raises e s1)
     \<and> (slicer_executable env (fs s1) = Inr slicer \<longrightarrow>
          (is_file (fs s1) slicer = Inl e \<longrightarrow>
             run_batch env in_dir atlas out_dir pattern recursive overwrite iterations sampling
               bet_timeout s = Raises e s1)
        \<and> (is_file (fs s1) slicer = Inr False \<longrightarrow>
             run_batch env in_dir atlas out_dir pattern recursive overwrite iterations sampling
               bet_timeout s = Returns 2 (say ErrNoSlicer s1))
        \<and> (is_file (fs s1) slicer = Inr True \<longrightarrow>
             (is_file (fs s1) atlas = Inl e \<longrightarrow>
                run_batch env in_dir atlas out_dir pattern recursive overwrite iterations sampling
                  bet_timeout s = Raises e s1)
           \<and> (is_file (fs s1) atlas = Inr False \<longrightarrow>
                run_batch env in_dir atlas out_dir pattern recursive overwrite iterations sampling
                  bet_timeout s = Returns 2 (say (ErrNoAtlas atlas) s1))
           \<and> (is_file (fs s1) atlas = Inr True \<longrightarrow>
                (find_images env (fs s1) in_dir pattern recursive = Inl e \<longrightarrow>
                   run_batch env in_dir atlas out_dir pattern recursive overwrite iterations
                     sampling bet_timeout s = Raises e s1)
              \<and> (find_images env (fs s1) in_dir pattern recursive = Inr [] \<longrightarrow>
                   run_batch env in_dir atlas out_dir pattern recursive overwrite iterations
                     sampling bet_timeout s = Returns 1 (say ErrNoImages s1))
              \<and> (find_images env (fs s1) in_dir pattern recursive = Inr imgs \<and> imgs \<noteq> [] \<longrightarrow>
                   run_batch env in_dir atlas out_dir pattern recursive overwrite iterations
                     sampling bet_timeout s
                   = (case batch_loop env (length imgs) atlas ps overwrite iterations sampling
                             slicer bet_timeout 1 imgs 0 (log_banner slicer imgs atlas out_dir s1) of
                        Raises e s3 \<Rightarrow> Raises e s3
                      | Hangs s3 \<Rightarrow> Hangs s3
                      | Returns n_done s3 \<Rightarrow>
                          Returns (if n_done = length imgs then 0 else 1)
                            (say (Summary n_done (length imgs)) s3))))))"
proof -
  note dirs = setup_output_dirs_creates [OF assms]
  have rest: "(slicer_executable env (fs s1) = Inl e \<longrightarrow>
          run_batch env in_dir atlas out_dir pattern recursive overwrite iterations sampling
            bet_timeout s = Raises e s1)
     \<and> (slicer_executable env (fs s1) = Inr slicer \<longrightarrow>
          (is_file (fs s1) slicer = Inl e \<longrightarrow>
             run_batch env in_dir atlas out_dir pattern recursive overwrite iterations sampling
               bet_timeout s = Raises e s1)
        \<and> (is_file (fs s1) slicer = Inr False \<longrightarrow>
             run_batch env in_dir atlas out_dir pattern recursive overwrite iterations sampling
               bet_timeout s = Returns 2 (say ErrNoSlicer s1))
        \<and> (is_file (fs s1) slicer = Inr True \<longrightarrow>
             (is_file (fs s1) atlas = Inl e \<longrightarrow>
                run_batch env in_dir atlas out_dir pattern recursive overwrite iterations sampling
                  bet_timeout s = Raises e s1)
           \<and> (is_file (fs s1) atlas = Inr False \<longrightarrow>
                run_batch env in_dir atlas out_dir pattern recursive overwrite iterations sampling
                  bet_timeout s = Returns 2 (say (ErrNoAtlas atlas) s1))
           \<and> (is_file (fs s1) atlas = Inr True \<longrightarrow>
                (find_images env (fs s1) in_dir pattern recursive = Inl e \<longrightarrow>
                   run_batch env in_dir atlas out_dir pattern recursive overwrite iterations
                     sampling bet_timeout s = Raises e s1)
              \<and> (find_images env (fs s1) in_dir pattern recursive = Inr [] \<longrightarrow>
                   run_batch env in_dir atlas out_dir pattern recursive overwrite iterations
                     sampling bet_timeout s = Returns 1 (say ErrNoImages s1))
              \<and> (find_images env (fs s1) in_dir pattern recursive = Inr imgs \<and> imgs \<noteq> [] \<longrightarrow>
                   run_batch env in_dir atlas out_dir pattern recursive overwrite iterations
                     sampling bet_timeout s
                   = (case batch_loop env (length imgs) atlas ps overwrite iterations sampling
                             slicer bet_timeout 1 imgs 0 (log_banner slicer imgs atlas out_dir s1) of
                        Raises e s3 \<Rightarrow> Raises e s3
                      | Hangs s3 \<Rightarrow> Hangs s3
                      | Returns n_done s3 \<Rightarrow>
                          Returns (if n_done = length imgs then 0 else 1)
                            (say (Summary n_done (length imgs)) s3))))))"
    using assms by (simp add: run_batch_def Let_def)
  from dirs rest show ?thesis by (intro conjI) simp_all
qed

theorem output_dirs_created_first_witness:
  "setup_output_dirs [''out''] (demo_world bare_fs) = Returns demo_paths bare_made
   \<and> is_dir (fs (demo_world bare_fs)) [''out''] = False
   \<and> is_dir (fs bare_made) [''out'', ''register'']
   \<and> is_dir (fs bare_made) [''out'', ''bet'']
   \<and> is_dir (fs bare_made) [''out'', ''segment'']
   \<and> is_dir (fs bare_made) [''out'', ''log'']
   \<and> is_dir (fs bare_made) [''out'', ''transform'']
   \<and> slicer_executable good_env (fs bare_made) = Inr demo_slicer
   \<and> is_file (fs bare_made) demo_slicer = Inr True
   \<and> is_file (fs bare_made) [''mni.nii''] = Inr False
   \<and> run_batch good_env [''data''] [''mni.nii''] [''out''] None False False 1500 0.05 1800
        (demo_world bare_fs) = Returns 2 (say (ErrNoAtlas [''mni.nii'']) bare_made)
   \<and> is_file (fs bare_made) demo_atlas = Inr True
   \<and> find_images good_env (fs bare_made) [''nowhere''] None False = Inl FileNotFoundError
   \<and> run_batch good_env [''nowhere''] demo_atlas [''out''] None False False 1500 0.05 1800
        (demo_world bare_fs) = Raises FileNotFoundError bare_made
   \<and> find_images good_env (fs bare_made) [''opt'', ''bin''] None False = Inr []
   \<and> run_batch good_env [''opt'', ''bin''] demo_atlas [''out''] None False False 1500 0.05 1800
        (demo_world bare_fs) = Returns 1 (say ErrNoImages bare_made)"
proof -
  have h1: "setup_output_dirs [''out''] (demo_world bare_fs) = Returns demo_paths bare_made"
    by code_simp
  have h2: "is_dir (fs (demo_world bare_fs)) [''out''] = False"
    by code_simp
  have h3: "slicer_executable good_env (fs bare_made) = Inr demo_slicer"
    by code_simp
  have h4: "is_file (fs bare_made) demo_slicer = Inr True"
    by code_simp
  have h5: "is_file (fs bare_made) [''mni.nii''] = Inr False"
    by code_simp
  have h6: "is_file (fs bare_made) demo_atlas = Inr True"
    by code_simp
  have h7: "find_images good_env (fs bare_made) [''nowhere''] None False = Inl FileNotFoundError"
    by code_simp
  have h8: "find_images good_env (fs bare_made) [''opt'', ''bin''] None False = Inr []"
    by code_simp
  note made = output_dirs_created_first [OF h1]
  from made
  have c0: "is_dir (fs bare_made) (joinpath [''out''] ''register'')
      \<and> is_dir (fs bare_made) (joinpath [''out''] ''bet'')
      \<and> is_dir (fs bare_made) (joinpath [''out''] ''segment'')
      \<and> is_dir (fs bare_made) (joinpath [''out''] ''log'')
      \<and> is_dir (fs bare_made) (joinpath [''out''] ''transform'')"
    by blast
  then have c1: "is_dir (fs bare_made) [''out'', ''register'']"
    and c2: "is_dir (fs bare_made) [''out'', ''bet'']"
    and c3: "is_dir (fs bare_made) [''out'', ''segment'']"
    and c4: "is_dir (fs bare_made) [''out'', ''log'']"
    and c5: "is_dir (fs bare_made) [''out'', ''transform'']"
    by (simp_all add: joinpath_def)
  from made [where env = good_env and slicer = demo_slicer and atlas = "[''mni.nii'']"
      and in_dir = "[''data'']" and pattern = None and recursive = False and overwrite = False
      and iterations = 1500 and sampling = "0.05" and bet_timeout = 1800] h3 h4 h5
  have c6: "run_batch good_env [''data''] [''mni.nii''] [''out''] None False False 1500 0.05 1800
        (demo_world bare_fs) = Returns 2 (say (ErrNoAtlas [''mni.nii'']) bare_made)"
    by blast
  from made [where env = good_env and slicer = demo_slicer and atlas = demo_atlas
      and in_dir = "[''nowhere'']" and pattern = None and recursive = False and overwrite = False
      and iterations = 1500 and sampling = "0.05" and bet_timeout = 1800
      and e = FileNotFoundError] h3 h4 h6 h7
  have c7: "run_batch good_env [''nowhere''] demo_atlas [''out''] None False False 1500 0.05 1800
        (demo_world bare_fs) = Raises FileNotFoundError bare_made"
    by blast
  from made [where env = good_env and slicer = demo_slicer and atlas = demo_atlas
      and in_dir = "[''opt'', ''bin'']" and pattern = None and recursive = False
      and overwrite = False and iterations = 1500 and sampling = "0.05" and bet_timeout = 1800]
    h3 h4 h6 h8
  have c8: "run_batch good_env [''opt'', ''bin''] demo_atlas [''out''] None False False 1500 0.05 1800
        (demo_world bare_fs) = Returns 1 (say ErrNoImages bare_made)"
    by blast
  from h1 h2 c1 c2 c3 c4 c5 h3 h4 h5 c6 h6 h7 c7 h8 c8 show ?thesis
    by (intro conjI)
qed

subsection \<open>Discovery\<close>

text \<open>
  C9. Without pattern and without the recursive flag, \<^verbatim>\<open>find_images\<close> keeps every entry
  of the input directory whose name has a listed extension, whatever its kind: a directory
  named \<^verbatim>\<open>scan.nii\<close> is returned although it is not a regular file. The recursive branch
  on the same tree returns nothing. The same branch raises when the input directory does
  not exist, where the recursive one returns the empty sequence.
\<close>

theorem find_images_returns_directory:
  "find_images good_env fs_dirs [''data''] None False = Inr [[''data'', ''scan.nii'']]
   \<and> is_file fs_dirs [''data'', ''scan.nii''] = Inr False
   \<and> is_dir fs_dirs [''data'', ''scan.nii'']
   \<and> find_images good_env fs_dirs [''data''] None True = Inr []
   \<and> find_images good_env fs_dirs [''nowhere''] None False = Inl FileNotFoundError
   \<and> find_images good_env fs_dirs [''nowhere''] None True = Inr []"
  by code_simp

end
